theory Spec2Isabelle
  imports Main "HOL-Library.Sublist"
begin

section \<open>Python text\<close>

text \<open>
  A Python \<open>str\<close> is a sequence of Unicode code points, so it is modelled as a list of
  natural numbers. \<open>lit\<close> turns an ASCII literal of the source into that form.
\<close>

type_synonym pystr = "nat list"

definition lit :: "string \<Rightarrow> pystr" where
  "lit s = map of_char s"

text \<open>
  \<open>str.strip()\<close> and \<open>str.lower()\<close> are library functions whose result depends on the
  Unicode character tables. The model takes them as parameters, so every theorem below holds
  for whatever the interpreter's functions compute. \<open>ascii_ops\<close> is their restriction to
  ASCII text (\<open>isspace\<close> on ASCII is tab, the line and page separators 10 to 13, the
  separators 28 to 31 and the blank); it is used to run the model on concrete inputs.
\<close>

record str_ops =
  str_strip :: "pystr \<Rightarrow> pystr"
  str_lower :: "pystr \<Rightarrow> pystr"

definition ascii_space :: "nat \<Rightarrow> bool" where
  "ascii_space c = (c \<in> {9, 10, 11, 12, 13, 28, 29, 30, 31, 32})"

definition ascii_strip :: "pystr \<Rightarrow> pystr" where
  "ascii_strip s = rev (dropWhile ascii_space (rev (dropWhile ascii_space s)))"

definition ascii_lower :: "pystr \<Rightarrow> pystr" where
  "ascii_lower s = map (\<lambda>c. if 65 \<le> c \<and> c \<le> 90 then c + 32 else c) s"

definition ascii_ops :: str_ops where
  "ascii_ops = \<lparr>str_strip = ascii_strip, str_lower = ascii_lower\<rparr>"

text \<open>
  \<open>str.replace(old, new)\<close>: every occurrence of \<open>old\<close>, found from the left and not
  overlapping, is replaced; an empty \<open>old\<close> matches before every code point and at the end.
\<close>

fun replace_nonempty :: "pystr \<Rightarrow> nat \<Rightarrow> pystr \<Rightarrow> pystr \<Rightarrow> pystr" where
  "replace_nonempty [] c cs new = []"
| "replace_nonempty (x # xs) c cs new =
     (if x = c \<and> prefix cs xs then new @ replace_nonempty (drop (length cs) xs) c cs new
      else x # replace_nonempty xs c cs new)"

definition replace :: "pystr \<Rightarrow> pystr \<Rightarrow> pystr \<Rightarrow> pystr" where
  "replace s old new =
     (case old of
        [] \<Rightarrow> new @ concat (map (\<lambda>x. x # new) s)
      | c # cs \<Rightarrow> replace_nonempty s c cs new)"

text \<open>
  \<open>str(n)\<close> of an \<open>int\<close>, which is also what an f-string field \<open>{n}\<close> produces: the
  decimal digits (code points 48 to 57), after a minus sign (45) when \<open>n\<close> is negative.
\<close>

function decimal :: "nat \<Rightarrow> pystr" where
  "decimal n = (if n < 10 then [48 + n] else decimal (n div 10) @ [48 + n mod 10])"
  by pat_completeness auto
termination
  by (relation "measure (\<lambda>n. n)") auto

declare decimal.simps [simp del]

definition str_int :: "int \<Rightarrow> pystr" where
  "str_int i = (if i < 0 then 45 # decimal (nat (- i)) else decimal (nat i))"

text \<open>The number a string of digits stands for; it reads back what \<open>decimal\<close> writes.\<close>

definition digits_value :: "pystr \<Rightarrow> nat" where
  "digits_value ds = foldl (\<lambda>a d. 10 * a + (d - 48)) 0 ds"

section \<open>The data of discordbot.py\<close>

text \<open>
  Of a \<open>discord.Permissions\<close> value the code reads one flag. The value is falsy only when
  no flag is set, and then \<open>manage_channels\<close> is unset as well, so
  \<open>bool(permissions and permissions.manage_channels)\<close> is that flag.
\<close>

record permissions =
  manage_channels :: bool

text \<open>
  A user or member as the code reads it: \<open>id\<close>, \<open>name\<close>, \<open>mention\<close> (the text of a
  mention of the user), \<open>bot\<close>, and \<open>guild_permissions\<close>, which
  \<open>getattr(actor, "guild_permissions", None)\<close> finds on a guild member only.
\<close>

record user =
  user_id :: int
  user_name :: pystr
  user_mention :: pystr
  user_bot :: bool
  guild_permissions :: "permissions option"

text \<open>
  A channel is a \<open>discord.DMChannel\<close> or any other messageable; the second carries what
  \<open>getattr(channel, "id", None)\<close> returns.
\<close>

datatype channel = DMChannel int | OtherChannel "int option"

record message =
  author :: user
  content :: pystr
  channel :: channel
  guild :: "int option"
  mentions :: "user list"

record interaction =
  interaction_channel :: "channel option"
  interaction_user :: user

text \<open>
  A \<open>genai.ChatSession\<close> object. \<open>chat_id\<close> stands for the identity of the Python object:
  \<open>start_chat\<close> returns an object that did not exist before, which the allocation counter
  \<open>next_chat\<close> of the state provides. \<open>history\<close> is the dialogue the library keeps in it.
\<close>

record chat =
  chat_id :: nat
  history :: "(pystr \<times> pystr) list"

text \<open>
  The module-level mutable state: the set \<open>allowed_channel_ids\<close> and the dictionary
  \<open>assistant._sessions\<close>.
\<close>

record state =
  allowed_channel_ids :: "int set"
  sessions :: "pystr \<rightharpoonup> chat"
  next_chat :: nat

definition initial_state :: "int set \<Rightarrow> state" where
  "initial_state configured = \<lparr>allowed_channel_ids = configured, sessions = Map.empty, next_chat = 0\<rparr>"

text \<open>
  The remote service, as one call of \<open>chat.send_message(prompt, ...)\<close> sees it: from the
  history held by the chat object and the prompt it yields the history the library leaves in
  the object, and either an exception (with its detail text; reading \<open>response.text\<close> can
  raise too) or a response whose \<open>text\<close> is \<open>None\<close> or a string. The service is a
  parameter of each call, so nothing is assumed about it.
\<close>

datatype response = Raises pystr | Response "pystr option"

type_synonym service = "(pystr \<times> pystr) list \<Rightarrow> pystr \<Rightarrow> (pystr \<times> pystr) list \<times> response"

datatype exn = AttributeError | ValueError pystr | ServiceError pystr

text \<open>
  What a handler does to the outside, in order: \<open>channel.send\<close>, \<open>message.reply\<close>,
  \<open>interaction.response.send_message\<close> (always ephemeral in the source), the typing
  indicator, and the remote call \<open>send_message\<close> on a chat object with its prompt.
  Logging is left out.
\<close>

datatype event =
    ChannelSend pystr
  | MessageReply pystr
  | InteractionSend pystr
  | Typing
  | SendMessage nat pystr

text \<open>The result of one handler run: the state it leaves, its events, and the exception that
  ended it, if one did.\<close>

record outcome =
  state_after :: state
  emitted :: "event list"
  raised :: "exn option"

section \<open>The texts the bot sends\<close>

text \<open>
  The string literals of the source that are not ASCII, as code points. Each is named for
  the place that sends it; the line numbers are those of discordbot.py.
\<close>

text \<open>Line 143, 183, 32 code points; slash commands, in a direct conversation or with no channel: run this command in a text channel of a server.\<close>

definition MSG_SLASH_GUILD_ONLY :: pystr where
  "MSG_SLASH_GUILD_ONLY =
   [12371, 12398, 12467, 12510, 12531, 12489, 12399, 12469, 12540, 12496, 12540, 20869,
    12398, 12486, 12461, 12473, 12488, 12481, 12515, 12531, 12493, 12523, 12391, 23455,
    34892, 12375, 12390, 12367, 12384, 12373, 12356, 12290]"

text \<open>Line 150, 36 code points; /join without the privilege: you have no permission to register channels; ask a server administrator.\<close>

definition MSG_SLASH_JOIN_DENIED :: pystr where
  "MSG_SLASH_JOIN_DENIED =
   [12481, 12515, 12531, 12493, 12523, 12434, 30331, 37682, 12377, 12427, 27177, 38480,
    12364, 12354, 12426, 12414, 12379, 12435, 12290, 12469, 12540, 12496, 12540, 31649,
    29702, 32773, 12395, 30456, 35527, 12375, 12390, 12367, 12384, 12373, 12356, 12290]"

text \<open>Line 158, 35 code points; /join on a channel without an id: this channel could not be registered; try another channel.\<close>

definition MSG_SLASH_JOIN_NO_ID :: pystr where
  "MSG_SLASH_JOIN_NO_ID =
   [12371, 12398, 12481, 12515, 12531, 12493, 12523, 12434, 30331, 37682, 12391, 12365,
    12414, 12379, 12435, 12391, 12375, 12383, 12290, 21029, 12398, 12481, 12515, 12531,
    12493, 12523, 12391, 12362, 35430, 12375, 12367, 12384, 12373, 12356, 12290]"

text \<open>Line 165, 27 code points; /join on a registered channel: we can already talk in this channel.\<close>

definition MSG_SLASH_JOIN_ALREADY :: pystr where
  "MSG_SLASH_JOIN_ALREADY =
   [12377, 12391, 12395, 12371, 12398, 12481, 12515, 12531, 12493, 12523, 12391, 12362,
    35441, 12375, 12391, 12365, 12427, 12424, 12358, 12395, 12394, 12387, 12390, 12356,
    12414, 12377, 12290]"

text \<open>Line 172, 236, 35 code points; a registration that succeeded (both paths): this channel is now set up for conversation.\<close>

definition MSG_JOINED :: pystr where
  "MSG_JOINED =
   [12371, 12398, 12481, 12515, 12531, 12493, 12523, 12391, 12420, 12426, 21462, 12426,
    12377, 12427, 12424, 12358, 12395, 35373, 23450, 12375, 12414, 12375, 12383, 12290,
    12424, 12429, 12375, 12367, 12362, 39000, 12356, 12375, 12414, 12377, 12290]"

text \<open>Line 190, 36 code points; /leave without the privilege: you have no permission to unregister channels; ask a server administrator.\<close>

definition MSG_SLASH_LEAVE_DENIED :: pystr where
  "MSG_SLASH_LEAVE_DENIED =
   [12481, 12515, 12531, 12493, 12523, 12398, 30331, 37682, 35299, 38500, 27177, 38480,
    12364, 12354, 12426, 12414, 12379, 12435, 12290, 12469, 12540, 12496, 12540, 31649,
    29702, 32773, 12395, 30456, 35527, 12375, 12390, 12367, 12384, 12373, 12356, 12290]"

text \<open>Line 198, 38 code points; /leave on a channel without an id: this channel could not be unregistered; try another channel.\<close>

definition MSG_SLASH_LEAVE_NO_ID :: pystr where
  "MSG_SLASH_LEAVE_NO_ID =
   [12371, 12398, 12481, 12515, 12531, 12493, 12523, 12398, 30331, 37682, 12434, 35299,
    38500, 12391, 12365, 12414, 12379, 12435, 12391, 12375, 12383, 12290, 21029, 12398,
    12481, 12515, 12531, 12493, 12523, 12391, 12362, 35430, 12375, 12367, 12384, 12373,
    12356, 12290]"

text \<open>Line 205, 247, 25 code points; a deregistration of a channel that is not registered (both paths): this channel was not registered in the first place.\<close>

definition MSG_NOT_REGISTERED :: pystr where
  "MSG_NOT_REGISTERED =
   [12371, 12398, 12481, 12515, 12531, 12493, 12523, 12399, 12418, 12392, 12418, 12392,
    30331, 37682, 12373, 12428, 12390, 12356, 12414, 12379, 12435, 12391, 12375, 12383,
    12290]"

text \<open>Line 212, 250, 43 code points; a deregistration that succeeded (both paths): replies in this channel are stopped; /join again when needed.\<close>

definition MSG_LEFT :: pystr where
  "MSG_LEFT =
   [12371, 12398, 12481, 12515, 12531, 12493, 12523, 12391, 12398, 24540, 31572, 12434,
    20572, 27490, 12375, 12414, 12375, 12383, 12290, 24517, 35201, 12395, 12394, 12387,
    12383, 12425, 12414, 12383, 32, 47, 106, 111, 105, 110, 32, 12375, 12390, 12367, 12384,
    12373, 12356, 12397, 12290]"

text \<open>Line 227, 241, 31 code points; text commands in a direct conversation: use this command in a text channel of a server.\<close>

definition MSG_TEXT_GUILD_ONLY :: pystr where
  "MSG_TEXT_GUILD_ONLY =
   [12371, 12398, 12467, 12510, 12531, 12489, 12399, 12469, 12540, 12496, 12540, 20869,
    12398, 12486, 12461, 12473, 12488, 12481, 12515, 12531, 12493, 12523, 12391, 20351,
    12387, 12390, 12367, 12384, 12373, 12356, 12290]"

text \<open>Line 230, 33 code points; text join without guild or privilege: the permission could not be confirmed, so this channel was not registered.\<close>

definition MSG_TEXT_JOIN_DENIED :: pystr where
  "MSG_TEXT_JOIN_DENIED =
   [27177, 38480, 12434, 30906, 35469, 12391, 12365, 12394, 12363, 12387, 12383, 12383,
    12417, 12289, 12371, 12398, 12481, 12515, 12531, 12493, 12523, 12434, 30331, 37682,
    12391, 12365, 12414, 12379, 12435, 12391, 12375, 12383, 12290]"

text \<open>Line 233, 19 code points; text join on a registered channel: we can already talk in this channel.\<close>

definition MSG_TEXT_JOIN_ALREADY :: pystr where
  "MSG_TEXT_JOIN_ALREADY =
   [12377, 12391, 12395, 12371, 12398, 12481, 12515, 12531, 12493, 12523, 12391, 12362,
    35441, 12375, 12391, 12365, 12414, 12377, 12290]"

text \<open>Line 244, 36 code points; text leave without guild or privilege: the permission could not be confirmed, so this channel was not unregistered.\<close>

definition MSG_TEXT_LEAVE_DENIED :: pystr where
  "MSG_TEXT_LEAVE_DENIED =
   [27177, 38480, 12434, 30906, 35469, 12391, 12365, 12394, 12363, 12387, 12383, 12383,
    12417, 12289, 12371, 12398, 12481, 12515, 12531, 12493, 12523, 12398, 30331, 37682,
    12434, 35299, 38500, 12391, 12365, 12414, 12379, 12435, 12391, 12375, 12383, 12290]"

text \<open>Line 258, 26 code points; an empty prompt: what would you like to talk about?.\<close>

definition MSG_EMPTY_PROMPT :: pystr where
  "MSG_EMPTY_PROMPT =
   [20309, 12395, 12388, 12356, 12390, 12362, 35441, 12375, 12375, 12414, 12377, 12363,
    65311, 36960, 24942, 12394, 12367, 25945, 12360, 12390, 12367, 12384, 12373, 12356,
    12397, 12290]"

text \<open>Line 269, 27 code points; after a reset: the conversation history has been reset.\<close>

definition MSG_RESET_DONE :: pystr where
  "MSG_RESET_DONE =
   [20250, 35441, 23653, 27508, 12434, 12522, 12475, 12483, 12488, 12375, 12414, 12375,
    12383, 12290, 12356, 12388, 12391, 12418, 12362, 35441, 12375, 12367, 12384, 12373,
    12356, 12397, 12290]"

text \<open>Line 277, 278, 52 code points; any failure of generate: sorry, I cannot help right now; please try again after a while.\<close>

definition MSG_APOLOGY :: pystr where
  "MSG_APOLOGY =
   [12372, 12417, 12435, 12394, 12373, 12356, 12289, 20170, 12399, 12362, 25163, 20253,
    12356, 12364, 12391, 12365, 12394, 12356, 12415, 12383, 12356, 12391, 12377, 12290,
    23569, 12375, 26178, 38291, 12434, 32622, 12356, 12390, 12363, 12425, 12418, 12358,
    19968, 24230, 35430, 12375, 12390, 12418, 12425, 12360, 12427, 12392, 23305, 12375,
    12356, 12391, 12377, 12290]"

text \<open>Line 267, 4 code points; the Japanese reset token (katakana ri-se-t-to).\<close>

definition RESET_JA :: pystr where
  "RESET_JA =
   [12522, 12475, 12483, 12488]"

section \<open>CounselingAgent\<close>

definition get_session :: "state \<Rightarrow> pystr \<Rightarrow> chat \<times> state" where
  "get_session st session_id =
     (case sessions st session_id of
        Some c \<Rightarrow> (c, st)
      | None \<Rightarrow>
          (let c = \<lparr>chat_id = next_chat st, history = []\<rparr>
           in (c, st\<lparr>sessions := (sessions st)(session_id \<mapsto> c),
                      next_chat := Suc (next_chat st)\<rparr>)))"

definition reset :: "state \<Rightarrow> pystr \<Rightarrow> state" where
  "reset st session_id =
     (if sessions st session_id \<noteq> None
      then st\<lparr>sessions := (sessions st)(session_id := None)\<rparr>
      else st)"

text \<open>
  The closure \<open>_invoke\<close>, applied to what \<open>chat.send_message\<close> did: an exception of the
  call passes through; otherwise \<open>(response.text or "").strip()\<close> is returned unless it is
  empty, which raises \<open>ValueError("Empty response from Gemini")\<close>.
\<close>

definition invoke :: "str_ops \<Rightarrow> response \<Rightarrow> exn + pystr" where
  "invoke ops r =
     (case r of
        Raises detail \<Rightarrow> Inl (ServiceError detail)
      | Response t \<Rightarrow>
          (let text = str_strip ops (case t of None \<Rightarrow> [] | Some x \<Rightarrow> x)
           in if text = [] then Inl (ValueError (lit ''Empty response from Gemini''))
              else Inr text))"

text \<open>
  \<open>generate\<close>: the session is looked up or created first, then the remote call runs on its
  chat object, whose history the library updates; an exception is logged and raised again.
\<close>

definition generate :: "str_ops \<Rightarrow> service \<Rightarrow> state \<Rightarrow> pystr \<Rightarrow> pystr \<Rightarrow> state \<times> event list \<times> (exn + pystr)" where
  "generate ops svc st session_id prompt =
     (let (c, st1) = get_session st session_id;
          (h, r) = svc (history c) prompt;
          st2 = st1\<lparr>sessions := (sessions st1)(session_id \<mapsto> c\<lparr>history := h\<rparr>)\<rparr>
      in (st2, [SendMessage (chat_id c) prompt], invoke ops r))"

section \<open>Access control\<close>

definition has_manage_channels :: "user \<Rightarrow> bool" where
  "has_manage_channels actor =
     (case guild_permissions actor of None \<Rightarrow> False | Some p \<Rightarrow> manage_channels p)"

text \<open>\<open>getattr(channel, "id", None)\<close>; a \<open>DMChannel\<close> always has an id.\<close>

fun channel_id :: "channel \<Rightarrow> int option" where
  "channel_id (DMChannel i) = Some i"
| "channel_id (OtherChannel i) = i"

text \<open>\<open>isinstance(channel, discord.DMChannel)\<close>.\<close>

fun is_dm :: "channel \<Rightarrow> bool" where
  "is_dm (DMChannel i) = True"
| "is_dm (OtherChannel i) = False"

text \<open>\<open>None in allowed_channel_ids\<close> is false: the set holds integers only.\<close>

definition is_allowed_channel :: "state \<Rightarrow> channel \<Rightarrow> bool" where
  "is_allowed_channel st ch =
     (if is_dm ch then True
      else (case channel_id ch of None \<Rightarrow> False | Some i \<Rightarrow> i \<in> allowed_channel_ids st))"

definition should_respond :: "state \<Rightarrow> message \<Rightarrow> bool" where
  "should_respond st m =
     (if is_dm (channel m) then True
      else if \<not> is_allowed_channel st (channel m) then False
      else True)"

section \<open>Normalising the message body\<close>

text \<open>
  One round of the loop of \<open>_clean_prompt\<close>. Two users are equal when their ids are
  (discord.py compares users by id). The f-string on line 114, an at sign before \<open>client.user.name\<close>, starts with the
  code point 64.
\<close>

definition clean_step :: "str_ops \<Rightarrow> user \<Rightarrow> pystr \<Rightarrow> user \<Rightarrow> pystr" where
  "clean_step ops client_user prompt mention =
     (if user_id mention = user_id client_user
      then str_strip ops
             (replace (str_strip ops (replace prompt (user_mention mention) []))
                (64 # user_name client_user) [])
      else prompt)"

definition clean_prompt :: "str_ops \<Rightarrow> user option \<Rightarrow> message \<Rightarrow> pystr" where
  "clean_prompt ops client_user m =
     (let prompt = str_strip ops (content m)
      in case client_user of
           None \<Rightarrow> prompt
         | Some cu \<Rightarrow> foldl (clean_step ops cu) prompt (mentions m))"

section \<open>The slash commands\<close>

definition returns :: "state \<Rightarrow> event list \<Rightarrow> outcome" where
  "returns st evs = \<lparr>state_after = st, emitted = evs, raised = None\<rparr>"

definition raises :: "state \<Rightarrow> event list \<Rightarrow> exn \<Rightarrow> outcome" where
  "raises st evs e = \<lparr>state_after = st, emitted = evs, raised = Some e\<rparr>"

definition register_channel :: "state \<Rightarrow> interaction \<Rightarrow> outcome" where
  "register_channel st i =
     (case interaction_channel i of
        None \<Rightarrow> returns st [InteractionSend MSG_SLASH_GUILD_ONLY]
      | Some ch \<Rightarrow>
          if is_dm ch then returns st [InteractionSend MSG_SLASH_GUILD_ONLY]
          else if \<not> has_manage_channels (interaction_user i)
          then returns st [InteractionSend MSG_SLASH_JOIN_DENIED]
          else (case channel_id ch of
                  None \<Rightarrow> returns st [InteractionSend MSG_SLASH_JOIN_NO_ID]
                | Some c \<Rightarrow>
                    if c \<in> allowed_channel_ids st
                    then returns st [InteractionSend MSG_SLASH_JOIN_ALREADY]
                    else returns (st\<lparr>allowed_channel_ids := insert c (allowed_channel_ids st)\<rparr>)
                           [InteractionSend MSG_JOINED]))"

definition unregister_channel :: "state \<Rightarrow> interaction \<Rightarrow> outcome" where
  "unregister_channel st i =
     (case interaction_channel i of
        None \<Rightarrow> returns st [InteractionSend MSG_SLASH_GUILD_ONLY]
      | Some ch \<Rightarrow>
          if is_dm ch then returns st [InteractionSend MSG_SLASH_GUILD_ONLY]
          else if \<not> has_manage_channels (interaction_user i)
          then returns st [InteractionSend MSG_SLASH_LEAVE_DENIED]
          else (case channel_id ch of
                  None \<Rightarrow> returns st [InteractionSend MSG_SLASH_LEAVE_NO_ID]
                | Some c \<Rightarrow>
                    if c \<notin> allowed_channel_ids st
                    then returns st [InteractionSend MSG_NOT_REGISTERED]
                    else returns (st\<lparr>allowed_channel_ids := allowed_channel_ids st - {c}\<rparr>)
                           [InteractionSend MSG_LEFT]))"

section \<open>on_message\<close>

text \<open>
  The block of \<open>on_message\<close> for the tokens \<open>!join\<close> and \<open>/join\<close> (lines 226 to 237).
  \<open>message.channel.id\<close> is read without a default, so a channel with no id raises
  \<open>AttributeError\<close> there.
\<close>

definition text_join :: "state \<Rightarrow> message \<Rightarrow> outcome" where
  "text_join st m =
     (if is_dm (channel m) then returns st [ChannelSend MSG_TEXT_GUILD_ONLY]
      else if guild m = None \<or> \<not> has_manage_channels (author m)
      then returns st [ChannelSend MSG_TEXT_JOIN_DENIED]
      else (case channel_id (channel m) of
              None \<Rightarrow> raises st [] AttributeError
            | Some c \<Rightarrow>
                if c \<in> allowed_channel_ids st
                then returns st [ChannelSend MSG_TEXT_JOIN_ALREADY]
                else returns (st\<lparr>allowed_channel_ids := insert c (allowed_channel_ids st)\<rparr>)
                       [ChannelSend MSG_JOINED]))"

text \<open>The block for the tokens \<open>!leave\<close> and \<open>/leave\<close> (lines 240 to 251).\<close>

definition text_leave :: "state \<Rightarrow> message \<Rightarrow> outcome" where
  "text_leave st m =
     (if is_dm (channel m) then returns st [ChannelSend MSG_TEXT_GUILD_ONLY]
      else if guild m = None \<or> \<not> has_manage_channels (author m)
      then returns st [ChannelSend MSG_TEXT_LEAVE_DENIED]
      else (case channel_id (channel m) of
              None \<Rightarrow> raises st [] AttributeError
            | Some c \<Rightarrow>
                if c \<notin> allowed_channel_ids st
                then returns st [ChannelSend MSG_NOT_REGISTERED]
                else returns (st\<lparr>allowed_channel_ids := allowed_channel_ids st - {c}\<rparr>)
                       [ChannelSend MSG_LEFT]))"

text \<open>
  The session id (lines 261 to 265). In the second branch \<open>message.guild.id\<close> raises
  \<open>AttributeError\<close> when the message has no guild.
\<close>

definition session_id_of :: "message \<Rightarrow> exn + pystr" where
  "session_id_of m =
     (if is_dm (channel m) then Inr (lit ''dm:'' @ str_int (user_id (author m)))
      else (case guild m of
              None \<Rightarrow> Inl AttributeError
            | Some g \<Rightarrow>
                (case channel_id (channel m) of
                   None \<Rightarrow> Inl AttributeError
                 | Some c \<Rightarrow>
                     Inr (lit ''guild:'' @ str_int g @ lit '':channel:'' @ str_int c
                          @ lit '':user:'' @ str_int (user_id (author m))))))"

definition JOIN_TOKENS :: "pystr set" where
  "JOIN_TOKENS = {lit ''!join'', lit ''/join''}"

definition LEAVE_TOKENS :: "pystr set" where
  "LEAVE_TOKENS = {lit ''!leave'', lit ''/leave''}"

definition RESET_TOKENS :: "pystr set" where
  "RESET_TOKENS = {lit ''!reset'', lit ''reset'', RESET_JA}"

text \<open>
  \<open>on_message\<close>, run to its end: \<open>svc\<close> is what the remote service does if this run calls
  it. \<open>client_user\<close> is \<open>client.user\<close>.
\<close>

definition on_message :: "str_ops \<Rightarrow> user option \<Rightarrow> service \<Rightarrow> state \<Rightarrow> message \<Rightarrow> outcome" where
  "on_message ops client_user svc st m =
     (if user_bot (author m) then returns st []
      else
        let raw_prompt = clean_prompt ops client_user m;
            command = str_lower ops raw_prompt
        in if command \<in> JOIN_TOKENS then text_join st m
           else if command \<in> LEAVE_TOKENS then text_leave st m
           else if \<not> should_respond st m then returns st []
           else
             let prompt = raw_prompt
             in if prompt = [] then returns st [ChannelSend MSG_EMPTY_PROMPT]
                else (case session_id_of m of
                        Inl e \<Rightarrow> raises st [] e
                      | Inr sid \<Rightarrow>
                          if str_lower ops prompt \<in> RESET_TOKENS
                          then returns (reset st sid) [ChannelSend MSG_RESET_DONE]
                          else (case generate ops svc st sid prompt of
                                  (st', evs, Inl e) \<Rightarrow>
                                    returns st' (Typing # evs @ [ChannelSend MSG_APOLOGY])
                                | (st', evs, Inr reply) \<Rightarrow>
                                    returns st'
                                      (Typing # evs @
                                       [if is_dm (channel m) then ChannelSend reply
                                        else MessageReply reply]))))"

section \<open>The classifier of the specification\<close>

text \<open>
  The classification as section 4.2 of the specification words it, for comparison with the
  order of tests in \<open>on_message\<close>: the body is the normalised one (trimmed, with the
  bot's own mention removed); the tokens and the empty string are tested on its lower-cased
  form, in the stated priority order, and a generation request carries the body as it was
  before lower-casing.
\<close>

datatype classification =
    RegisterCommand
  | DeregisterCommand
  | ResetCommand
  | EmptyInput
  | GenerationRequest pystr

definition classify_spec :: "str_ops \<Rightarrow> pystr \<Rightarrow> classification" where
  "classify_spec ops body =
     (let folded = str_lower ops body
      in if folded \<in> {lit ''!join'', lit ''/join''} then RegisterCommand
         else if folded \<in> {lit ''!leave'', lit ''/leave''} then DeregisterCommand
         else if folded \<in> {lit ''!reset'', lit ''reset'', RESET_JA} then ResetCommand
         else if folded = [] then EmptyInput
         else GenerationRequest body)"

section \<open>Chat objects are told apart by their identity\<close>

text \<open>
  Every chat object in the dictionary was allocated before: its identity is below the
  allocation counter. The initial state satisfies this and every operation keeps it.
\<close>

definition wf_state :: "state \<Rightarrow> bool" where
  "wf_state st = (\<forall>k c. sessions st k = Some c \<longrightarrow> chat_id c < next_chat st)"

section \<open>Handlers that overlap\<close>

text \<open>
  \<open>on_message\<close> is a coroutine. It runs without interruption up to
  \<open>await asyncio.to_thread(_invoke)\<close> inside \<open>generate\<close>; there it hands the remote call to
  a worker thread and gives the event loop back, which may start the handler of another
  message before the call returns. A call in flight is the suspended handler: the session id
  and prompt it was made with, the identity of the chat object its closure holds, and the
  message it will answer.
\<close>

record call =
  call_session :: pystr
  call_prompt :: pystr
  call_chat :: nat
  call_message :: message

datatype progress = Finished outcome | Awaiting state "event list" call

text \<open>
  The handler up to the suspension: the tests of \<open>on_message\<close> in their order, and of
  \<open>generate\<close> the lookup or creation of the session, which happens before the thread starts.
\<close>

definition on_message_begin :: "str_ops \<Rightarrow> user option \<Rightarrow> state \<Rightarrow> message \<Rightarrow> progress" where
  "on_message_begin ops client_user st m =
     (if user_bot (author m) then Finished (returns st [])
      else
        let raw_prompt = clean_prompt ops client_user m;
            command = str_lower ops raw_prompt
        in if command \<in> JOIN_TOKENS then Finished (text_join st m)
           else if command \<in> LEAVE_TOKENS then Finished (text_leave st m)
           else if \<not> should_respond st m then Finished (returns st [])
           else
             let prompt = raw_prompt
             in if prompt = [] then Finished (returns st [ChannelSend MSG_EMPTY_PROMPT])
                else (case session_id_of m of
                        Inl e \<Rightarrow> Finished (raises st [] e)
                      | Inr sid \<Rightarrow>
                          if str_lower ops prompt \<in> RESET_TOKENS
                          then Finished (returns (reset st sid) [ChannelSend MSG_RESET_DONE])
                          else
                            (let (c, st1) = get_session st sid
                             in Awaiting st1 [Typing, SendMessage (chat_id c) prompt]
                                  \<lparr>call_session = sid, call_prompt = prompt,
                                   call_chat = chat_id c, call_message = m\<rparr>)))"

text \<open>
  The handler from the moment the thread is done: the library has left the history \<open>h\<close> in
  the chat object the call ran on (which is still the one in the dictionary unless a reset
  came in between), \<open>_invoke\<close> returns or raises, and \<open>on_message\<close> sends its answer.
\<close>

definition on_message_resume :: "str_ops \<Rightarrow> state \<Rightarrow> call \<Rightarrow> (pystr \<times> pystr) list \<Rightarrow> response \<Rightarrow> outcome" where
  "on_message_resume ops st c h r =
     (let st' =
            (case sessions st (call_session c) of
               None \<Rightarrow> st
             | Some ch \<Rightarrow>
                 if chat_id ch = call_chat c
                 then st\<lparr>sessions := (sessions st)(call_session c \<mapsto> ch\<lparr>history := h\<rparr>)\<rparr>
                 else st)
      in case invoke ops r of
           Inl e \<Rightarrow> returns st' [ChannelSend MSG_APOLOGY]
         | Inr reply \<Rightarrow>
             returns st'
               [if is_dm (channel (call_message c)) then ChannelSend reply
                else MessageReply reply])"

text \<open>
  The process: the shared state, the calls in flight and everything sent so far. A message
  is dispatched, or the call at some position of the list returns with what the service did.
\<close>

record system =
  sys_state :: state
  in_flight :: "call list"
  sys_events :: "event list"

datatype action = Dispatch message | Return nat "(pystr \<times> pystr) list" response

fun step :: "str_ops \<Rightarrow> user option \<Rightarrow> system \<Rightarrow> action \<Rightarrow> system" where
  "step ops client_user s (Dispatch m) =
     (case on_message_begin ops client_user (sys_state s) m of
        Finished out \<Rightarrow>
          s\<lparr>sys_state := state_after out, sys_events := sys_events s @ emitted out\<rparr>
      | Awaiting st evs c \<Rightarrow>
          s\<lparr>sys_state := st, in_flight := in_flight s @ [c], sys_events := sys_events s @ evs\<rparr>)"
| "step ops client_user s (Return i h r) =
     (if i < length (in_flight s)
      then let out = on_message_resume ops (sys_state s) (in_flight s ! i) h r
           in s\<lparr>sys_state := state_after out,
                 in_flight := take i (in_flight s) @ drop (Suc i) (in_flight s),
                 sys_events := sys_events s @ emitted out\<rparr>
      else s)"

definition run :: "str_ops \<Rightarrow> user option \<Rightarrow> system \<Rightarrow> action list \<Rightarrow> system" where
  "run ops client_user s acts = foldl (step ops client_user) s acts"

definition start :: "int set \<Rightarrow> system" where
  "start configured = \<lparr>sys_state = initial_state configured, in_flight = [], sys_events = []\<rparr>"

text \<open>At most one call in flight for each session id.\<close>

definition single_flight :: "system \<Rightarrow> bool" where
  "single_flight s = distinct (map call_session (in_flight s))"

section \<open>Sample data\<close>

text \<open>Users, messages and services on which the model is run below.\<close>

definition admin :: user where
  "admin = \<lparr>user_id = 1, user_name = lit ''ann'', user_mention = lit ''<@1>'',
            user_bot = False, guild_permissions = Some \<lparr>manage_channels = True\<rparr>\<rparr>"

definition guest :: user where
  "guest = \<lparr>user_id = 2, user_name = lit ''bob'', user_mention = lit ''<@2>'',
            user_bot = False, guild_permissions = Some \<lparr>manage_channels = False\<rparr>\<rparr>"

definition stranger :: user where
  "stranger = \<lparr>user_id = 3, user_name = lit ''cy'', user_mention = lit ''<@3>'',
               user_bot = False, guild_permissions = None\<rparr>"

definition self_user :: user where
  "self_user = \<lparr>user_id = 9, user_name = lit ''mind'', user_mention = lit ''<@9>'',
                user_bot = True, guild_permissions = None\<rparr>"

definition guild_message :: "user \<Rightarrow> int \<Rightarrow> string \<Rightarrow> message" where
  "guild_message u c body =
     \<lparr>author = u, content = lit body, channel = OtherChannel (Some c), guild = Some 100,
      mentions = []\<rparr>"

definition dm_message :: "user \<Rightarrow> string \<Rightarrow> message" where
  "dm_message u body =
     \<lparr>author = u, content = lit body, channel = DMChannel 50, guild = None, mentions = []\<rparr>"

definition guildless_message :: "user \<Rightarrow> int \<Rightarrow> string \<Rightarrow> message" where
  "guildless_message u c body =
     \<lparr>author = u, content = lit body, channel = OtherChannel (Some c), guild = None,
      mentions = []\<rparr>"

definition slash :: "user \<Rightarrow> channel \<Rightarrow> interaction" where
  "slash u ch = \<lparr>interaction_channel = Some ch, interaction_user = u\<rparr>"

text \<open>A service that answers with the prompt, one that answers with blanks, one that fails.\<close>

definition echo :: service where
  "echo h p = (h @ [(p, p)], Response (Some p))"

definition blank :: service where
  "blank h p = (h @ [(p, lit ''  '')], Response (Some (lit ''  '')))"

definition outage :: service where
  "outage h p = (h, Raises (lit ''503''))"

text \<open>Two messages of one user in a direct conversation, the second before the first is answered.\<close>

definition two_hellos :: "action list" where
  "two_hellos = [Dispatch (dm_message stranger ''hello''), Dispatch (dm_message stranger ''again'')]"

section \<open>Facts about the session store\<close>

text \<open>
  The identities of the stored chat objects stay below the allocation counter, so a chat
  object made by \<open>start_chat\<close> is none of the stored ones.
\<close>

lemma wf_initial: "wf_state (initial_state r)"
  by (simp add: wf_state_def initial_state_def)

lemma wf_get_session: "wf_state st \<Longrightarrow> wf_state (snd (get_session st k))"
  by (auto simp: wf_state_def get_session_def Let_def less_Suc_eq split: option.splits)

lemma wf_reset: "wf_state st \<Longrightarrow> wf_state (reset st k)"
  by (auto simp: wf_state_def reset_def)

lemma wf_fresh: "wf_state st \<Longrightarrow> sessions st k = Some c \<Longrightarrow> chat_id c \<noteq> next_chat st"
  by (fastforce simp: wf_state_def)

lemma reset_absent: "sessions st k = None \<Longrightarrow> reset st k = st"
  by (simp add: reset_def)

lemma sessions_reset: "sessions (reset st k) = (sessions st)(k := None)"
  by (auto simp: reset_def fun_eq_iff)

lemma reset_twice: "reset (reset st k) k = reset st k"
  by (simp add: reset_def)

lemma get_session_after_reset:
  "get_session (reset st k) k =
     (\<lparr>chat_id = next_chat st, history = []\<rparr>,
      st\<lparr>sessions := (sessions st)(k \<mapsto> \<lparr>chat_id = next_chat st, history = []\<rparr>),
         next_chat := Suc (next_chat st)\<rparr>)"
  by (simp add: get_session_def reset_def Let_def)

lemma get_session_properties:
  "sessions (snd (get_session st k)) k = Some (fst (get_session st k))"
  "allowed_channel_ids (snd (get_session st k)) = allowed_channel_ids st"
  "get_session (snd (get_session st k)) k = (fst (get_session st k), snd (get_session st k))"
  by (simp_all add: get_session_def Let_def split: option.splits)

lemma first_chat: "chat_id (fst (get_session (initial_state r) k)) = 0"
  by (simp add: get_session_def initial_state_def Let_def)

lemma generate_unfold:
  "generate ops svc st k p =
     (let c = fst (get_session st k); st1 = snd (get_session st k); hr = svc (history c) p
      in (st1\<lparr>sessions := (sessions st1)(k \<mapsto> c\<lparr>history := fst hr\<rparr>)\<rparr>,
          [SendMessage (chat_id c) p], invoke ops (snd hr)))"
  by (simp add: generate_def Let_def split: prod.splits)

lemma wf_generate: "wf_state st \<Longrightarrow> wf_state (fst (generate ops svc st k p))"
  by (auto simp: generate_unfold wf_state_def get_session_def Let_def less_Suc_eq split: option.splits)

section \<open>Facts about the dispatcher\<close>

text \<open>
  The three token sets are disjoint and none holds the empty string, so the order in which
  they and the empty test are tried cannot be observed.
\<close>

lemma token_sets:
  "JOIN_TOKENS = {lit ''!join'', lit ''/join''}"
  "LEAVE_TOKENS = {lit ''!leave'', lit ''/leave''}"
  "RESET_TOKENS = {lit ''!reset'', lit ''reset'', RESET_JA}"
  by (simp_all add: JOIN_TOKENS_def LEAVE_TOKENS_def RESET_TOKENS_def)

lemma tokens_disjoint:
  "JOIN_TOKENS \<inter> LEAVE_TOKENS = {}"
  "JOIN_TOKENS \<inter> RESET_TOKENS = {}"
  "LEAVE_TOKENS \<inter> RESET_TOKENS = {}"
  "[] \<notin> JOIN_TOKENS \<union> LEAVE_TOKENS \<union> RESET_TOKENS"
  by (simp_all add: JOIN_TOKENS_def LEAVE_TOKENS_def RESET_TOKENS_def RESET_JA_def lit_def)

lemma on_message_join:
  "\<not> user_bot (author m) \<Longrightarrow> str_lower ops (clean_prompt ops client_user m) \<in> JOIN_TOKENS \<Longrightarrow>
   on_message ops client_user svc st m = text_join st m"
  by (simp add: on_message_def Let_def)

lemma on_message_leave:
  "\<not> user_bot (author m) \<Longrightarrow> str_lower ops (clean_prompt ops client_user m) \<in> LEAVE_TOKENS \<Longrightarrow>
   on_message ops client_user svc st m = text_leave st m"
  using tokens_disjoint(1) by (auto simp: on_message_def Let_def)

lemma on_message_generation:
  assumes "\<not> user_bot (author m)"
    and "clean_prompt ops client_user m = p"
    and "str_lower ops p \<notin> JOIN_TOKENS \<union> LEAVE_TOKENS \<union> RESET_TOKENS"
    and "should_respond st m"
    and "p \<noteq> []"
    and "session_id_of m = Inr k"
  shows "on_message ops client_user svc st m =
     (case generate ops svc st k p of
        (st', evs, Inl e) \<Rightarrow> returns st' (Typing # evs @ [ChannelSend MSG_APOLOGY])
      | (st', evs, Inr reply) \<Rightarrow>
          returns st' (Typing # evs @ [if is_dm (channel m) then ChannelSend reply else MessageReply reply]))"
  using assms by (simp add: on_message_def Let_def)

lemma invoke_blank:
  "str_strip ops (case t of None \<Rightarrow> [] | Some x \<Rightarrow> x) = [] \<Longrightarrow>
   invoke ops (Response t) = Inl (ValueError (lit ''Empty response from Gemini''))"
  by (simp add: invoke_def)

lemma invoke_raises: "invoke ops (Raises d) = Inl (ServiceError d)"
  by (simp add: invoke_def)

lemma MSG_APOLOGY_nonempty: "MSG_APOLOGY \<noteq> []"
  by (simp add: MSG_APOLOGY_def)

lemma should_respond_registry:
  "allowed_channel_ids st' = allowed_channel_ids st \<Longrightarrow> should_respond st' m = should_respond st m"
  by (simp add: should_respond_def is_allowed_channel_def split: option.splits)

text \<open>
Every handler keeps the identities of the stored chat objects below the counter.
\<close>

lemma wf_text_join: "wf_state st \<Longrightarrow> wf_state (state_after (text_join st m))"
  by (auto simp: text_join_def returns_def raises_def wf_state_def split: option.splits)

lemma wf_text_leave: "wf_state st \<Longrightarrow> wf_state (state_after (text_leave st m))"
  by (auto simp: text_leave_def returns_def raises_def wf_state_def split: option.splits)

lemma wf_register_channel: "wf_state st \<Longrightarrow> wf_state (state_after (register_channel st i))"
  by (auto simp: register_channel_def returns_def wf_state_def split: option.splits)

lemma wf_unregister_channel: "wf_state st \<Longrightarrow> wf_state (state_after (unregister_channel st i))"
  by (auto simp: unregister_channel_def returns_def wf_state_def split: option.splits)

lemma wf_on_message: "wf_state st \<Longrightarrow> wf_state (state_after (on_message ops cu svc st m))"
proof -
  assume wf: "wf_state st"
  have g: "wf_state (fst (generate ops svc st k p))" for k p
    using wf by (rule wf_generate)
  have r: "wf_state (reset st k)" for k
    using wf by (rule wf_reset)
  show ?thesis
    using wf g r wf_text_join [OF wf, of m] wf_text_leave [OF wf, of m]
    by (simp add: on_message_def Let_def returns_def raises_def case_prod_beta split: sum.splits)
qed

section \<open>Facts about session ids\<close>

text \<open>
  \<open>str\<close> of an integer can be read back, and it holds no colon (code point 58), so the
  fields of a session id can be cut apart again.
\<close>

lemma digits_value_decimal: "digits_value (decimal n) = n"
proof (induction n rule: decimal.induct)
  case (1 n)
  show ?case
  proof (cases "n < 10")
    case True
    then show ?thesis by (simp add: decimal.simps [of n] digits_value_def)
  next
    case False
    with 1 show ?thesis
      by (simp add: decimal.simps [of n] digits_value_def)
  qed
qed

lemma decimal_inj: "decimal n = decimal m \<Longrightarrow> n = m"
  by (metis digits_value_decimal)

lemma decimal_digits: "x \<in> set (decimal n) \<Longrightarrow> 48 \<le> x \<and> x \<le> 57"
proof (induction n rule: decimal.induct)
  case (1 n)
  show ?case
  proof (cases "n < 10")
    case True
    with 1(2) show ?thesis by (simp add: decimal.simps [of n])
  next
    case False
    with 1 show ?thesis
      by (auto simp: decimal.simps [of n])
  qed
qed

lemma decimal_nonempty: "decimal n \<noteq> []"
  by (subst decimal.simps) simp

lemma decimal_hd: "\<exists>x xs. decimal n = x # xs \<and> 48 \<le> x"
proof (cases "decimal n")
  case Nil
  then show ?thesis by (simp add: decimal_nonempty)
next
  case (Cons x xs)
  then have "x \<in> set (decimal n)" by simp
  then show ?thesis using Cons decimal_digits by blast
qed

lemma str_int_inj: "str_int i = str_int j \<Longrightarrow> i = j"
proof -
  assume eq: "str_int i = str_int j"
  obtain x xs where i: "decimal (nat i) = x # xs" "48 \<le> x" using decimal_hd by blast
  obtain y ys where j: "decimal (nat j) = y # ys" "48 \<le> y" using decimal_hd by blast
  show ?thesis
  proof (cases "i < 0")
    case True
    note ineg = True
    show ?thesis
    proof (cases "j < 0")
      case True
      with ineg eq have "decimal (nat (- i)) = decimal (nat (- j))" by (simp add: str_int_def)
      then have "nat (- i) = nat (- j)" by (rule decimal_inj)
      with ineg True show ?thesis by simp
    next
      case False
      with ineg eq j show ?thesis by (simp add: str_int_def)
    qed
  next
    case False
    note ipos = False
    show ?thesis
    proof (cases "j < 0")
      case True
      with ipos eq i show ?thesis by (simp add: str_int_def)
    next
      case False
      with ipos eq have "decimal (nat i) = decimal (nat j)" by (simp add: str_int_def)
      then have "nat i = nat j" by (rule decimal_inj)
      with ipos False show ?thesis by simp
    qed
  qed
qed

lemma str_int_no_colon: "58 \<notin> set (str_int i)"
  using decimal_digits [of 58] by (auto simp: str_int_def)

lemma split_at_colon:
  "58 \<notin> set a \<Longrightarrow> 58 \<notin> set a' \<Longrightarrow> a @ 58 # b = a' @ 58 # b' \<Longrightarrow> a = a' \<and> b = b'"
proof (induction a arbitrary: a')
  case Nil
  then show ?case by (cases a') auto
next
  case (Cons x a)
  then show ?case by (cases a') auto
qed

lemma guild_key_inj:
  assumes "lit ''guild:'' @ str_int g @ lit '':channel:'' @ str_int c @ lit '':user:'' @ str_int u =
           lit ''guild:'' @ str_int g' @ lit '':channel:'' @ str_int c' @ lit '':user:'' @ str_int u'"
  shows "g = g' \<and> c = c' \<and> u = u'"
proof -
  from assms have 1: "str_int g @ 58 # (lit ''channel:'' @ str_int c @ lit '':user:'' @ str_int u) =
           str_int g' @ 58 # (lit ''channel:'' @ str_int c' @ lit '':user:'' @ str_int u')"
    by (simp add: lit_def)
  from split_at_colon [OF str_int_no_colon str_int_no_colon 1]
  have g: "str_int g = str_int g'"
    and 2: "str_int c @ 58 # (lit ''user:'' @ str_int u) = str_int c' @ 58 # (lit ''user:'' @ str_int u')"
    by (simp_all add: lit_def)
  from split_at_colon [OF str_int_no_colon str_int_no_colon 2]
  have c: "str_int c = str_int c'" and u: "str_int u = str_int u'"
    by (simp_all add: lit_def)
  from g c u show ?thesis by (simp add: str_int_inj)
qed

lemma session_id_of_dm:
  "is_dm (channel m) \<Longrightarrow> session_id_of m = Inr k \<Longrightarrow> k = lit ''dm:'' @ str_int (user_id (author m))"
  by (auto simp: session_id_of_def)

lemma session_id_of_guild:
  "\<not> is_dm (channel m) \<Longrightarrow> session_id_of m = Inr k \<Longrightarrow>
   \<exists>g c. guild m = Some g \<and> channel_id (channel m) = Some c \<and>
     k = lit ''guild:'' @ str_int g @ lit '':channel:'' @ str_int c @ lit '':user:'' @ str_int (user_id (author m))"
  by (auto simp: session_id_of_def split: option.splits)

lemma dm_guild_keys_differ:
  assumes "is_dm (channel m)" "\<not> is_dm (channel m')"
    and "session_id_of m = Inr k" "session_id_of m' = Inr k"
  shows False
proof -
  from session_id_of_guild [OF assms(2,4)] obtain b where b: "k = lit ''guild:'' @ b"
    by blast
  from session_id_of_dm [OF assms(1,3)] b show False
    by (simp add: lit_def)
qed

section \<open>Facts about registration and deregistration\<close>

text \<open>
The text each failing branch sends, and what each handler does to the registry.
\<close>

lemma failure_texts_distinct:
  "distinct [MSG_APOLOGY, MSG_TEXT_GUILD_ONLY, MSG_TEXT_JOIN_DENIED, MSG_TEXT_JOIN_ALREADY,
             MSG_TEXT_LEAVE_DENIED, MSG_NOT_REGISTERED, MSG_SLASH_GUILD_ONLY,
             MSG_SLASH_JOIN_DENIED, MSG_SLASH_JOIN_ALREADY, MSG_SLASH_LEAVE_DENIED]"
  by (simp add: MSG_APOLOGY_def MSG_TEXT_GUILD_ONLY_def MSG_TEXT_JOIN_DENIED_def
      MSG_TEXT_JOIN_ALREADY_def MSG_TEXT_LEAVE_DENIED_def MSG_NOT_REGISTERED_def
      MSG_SLASH_GUILD_ONLY_def MSG_SLASH_JOIN_DENIED_def MSG_SLASH_JOIN_ALREADY_def
      MSG_SLASH_LEAVE_DENIED_def)

lemma text_join_failures:
  "is_dm (channel m) \<Longrightarrow> text_join st m = returns st [ChannelSend MSG_TEXT_GUILD_ONLY]"
  "\<not> is_dm (channel m) \<Longrightarrow> \<not> has_manage_channels (author m) \<Longrightarrow>
     text_join st m = returns st [ChannelSend MSG_TEXT_JOIN_DENIED]"
  "channel m = OtherChannel (Some c) \<Longrightarrow> guild m \<noteq> None \<Longrightarrow> has_manage_channels (author m) \<Longrightarrow>
     c \<in> allowed_channel_ids st \<Longrightarrow> text_join st m = returns st [ChannelSend MSG_TEXT_JOIN_ALREADY]"
  by (auto simp: text_join_def)

lemma text_leave_failures:
  "is_dm (channel m) \<Longrightarrow> text_leave st m = returns st [ChannelSend MSG_TEXT_GUILD_ONLY]"
  "\<not> is_dm (channel m) \<Longrightarrow> \<not> has_manage_channels (author m) \<Longrightarrow>
     text_leave st m = returns st [ChannelSend MSG_TEXT_LEAVE_DENIED]"
  "channel m = OtherChannel (Some c) \<Longrightarrow> guild m \<noteq> None \<Longrightarrow> has_manage_channels (author m) \<Longrightarrow>
     c \<notin> allowed_channel_ids st \<Longrightarrow> text_leave st m = returns st [ChannelSend MSG_NOT_REGISTERED]"
  by (auto simp: text_leave_def)

lemma register_channel_failures:
  "interaction_channel i = Some ch \<Longrightarrow> is_dm ch \<Longrightarrow>
     register_channel st i = returns st [InteractionSend MSG_SLASH_GUILD_ONLY]"
  "interaction_channel i = Some ch \<Longrightarrow> \<not> is_dm ch \<Longrightarrow> \<not> has_manage_channels (interaction_user i) \<Longrightarrow>
     register_channel st i = returns st [InteractionSend MSG_SLASH_JOIN_DENIED]"
  "interaction_channel i = Some (OtherChannel (Some c)) \<Longrightarrow> has_manage_channels (interaction_user i) \<Longrightarrow>
     c \<in> allowed_channel_ids st \<Longrightarrow>
     register_channel st i = returns st [InteractionSend MSG_SLASH_JOIN_ALREADY]"
  by (simp_all add: register_channel_def)

lemma unregister_channel_failures:
  "interaction_channel i = Some ch \<Longrightarrow> is_dm ch \<Longrightarrow>
     unregister_channel st i = returns st [InteractionSend MSG_SLASH_GUILD_ONLY]"
  "interaction_channel i = Some ch \<Longrightarrow> \<not> is_dm ch \<Longrightarrow> \<not> has_manage_channels (interaction_user i) \<Longrightarrow>
     unregister_channel st i = returns st [InteractionSend MSG_SLASH_LEAVE_DENIED]"
  "interaction_channel i = Some (OtherChannel (Some c)) \<Longrightarrow> has_manage_channels (interaction_user i) \<Longrightarrow>
     c \<notin> allowed_channel_ids st \<Longrightarrow>
     unregister_channel st i = returns st [InteractionSend MSG_NOT_REGISTERED]"
  by (simp_all add: unregister_channel_def)

lemma registry_text_join:
  "allowed_channel_ids (state_after (text_join st m)) =
     (if \<not> is_dm (channel m) \<and> guild m \<noteq> None \<and> has_manage_channels (author m)
      then (case channel_id (channel m) of None \<Rightarrow> allowed_channel_ids st
            | Some c \<Rightarrow> insert c (allowed_channel_ids st))
      else allowed_channel_ids st)"
  by (auto simp: text_join_def returns_def raises_def insert_absorb split: option.splits)

lemma registry_text_leave:
  "allowed_channel_ids (state_after (text_leave st m)) =
     (if \<not> is_dm (channel m) \<and> guild m \<noteq> None \<and> has_manage_channels (author m)
      then (case channel_id (channel m) of None \<Rightarrow> allowed_channel_ids st
            | Some c \<Rightarrow> allowed_channel_ids st - {c})
      else allowed_channel_ids st)"
  by (auto simp: text_leave_def returns_def raises_def split: option.splits)

lemma registry_register_channel:
  "allowed_channel_ids (state_after (register_channel st i)) =
     (case interaction_channel i of None \<Rightarrow> allowed_channel_ids st
      | Some ch \<Rightarrow>
         if \<not> is_dm ch \<and> has_manage_channels (interaction_user i)
         then (case channel_id ch of None \<Rightarrow> allowed_channel_ids st
               | Some c \<Rightarrow> insert c (allowed_channel_ids st))
         else allowed_channel_ids st)"
  by (auto simp: register_channel_def returns_def insert_absorb split: option.splits)

lemma registry_unregister_channel:
  "allowed_channel_ids (state_after (unregister_channel st i)) =
     (case interaction_channel i of None \<Rightarrow> allowed_channel_ids st
      | Some ch \<Rightarrow>
         if \<not> is_dm ch \<and> has_manage_channels (interaction_user i)
         then (case channel_id ch of None \<Rightarrow> allowed_channel_ids st
               | Some c \<Rightarrow> allowed_channel_ids st - {c})
         else allowed_channel_ids st)"
  by (auto simp: unregister_channel_def returns_def split: option.splits)

section \<open>Facts about the suspended handler\<close>

text \<open>
  Run to its end with nothing in between, the handler is its first half followed by its
  second: the two halves are \<open>on_message\<close> cut at the suspension. A message that is routed
  to generation suspends, and does so again, with the same call, in the state it leaves.
\<close>

lemma on_message_split:
  "on_message ops client_user svc st m =
     (case on_message_begin ops client_user st m of
        Finished out \<Rightarrow> out
      | Awaiting st1 evs c \<Rightarrow>
          (let (h, r) = svc (history (fst (get_session st (call_session c)))) (call_prompt c);
               out = on_message_resume ops st1 c h r
           in out\<lparr>emitted := evs @ emitted out\<rparr>))"
  by (simp add: on_message_def on_message_begin_def on_message_resume_def generate_unfold
      get_session_properties returns_def Let_def case_prod_beta split: sum.splits)

lemma begin_generation:
  assumes "\<not> user_bot (author m)"
    and "clean_prompt ops client_user m = p"
    and "str_lower ops p \<notin> JOIN_TOKENS \<union> LEAVE_TOKENS \<union> RESET_TOKENS"
    and "should_respond st m"
    and "p \<noteq> []"
    and "session_id_of m = Inr k"
  shows "on_message_begin ops client_user st m =
     Awaiting (snd (get_session st k))
       [Typing, SendMessage (chat_id (fst (get_session st k))) p]
       \<lparr>call_session = k, call_prompt = p, call_chat = chat_id (fst (get_session st k)),
        call_message = m\<rparr>"
  using assms by (simp add: on_message_begin_def Let_def case_prod_beta)

lemma begin_awaiting:
  assumes "on_message_begin ops client_user st m = Awaiting st1 evs c"
  shows "st1 = snd (get_session st (call_session c))"
    and "call_chat c = chat_id (fst (get_session st (call_session c)))"
    and "session_id_of m = Inr (call_session c)"
    and "call_message c = m"
    and "evs = [Typing, SendMessage (call_chat c) (call_prompt c)]"
    and "on_message_begin ops client_user st1 m = Awaiting st1 evs c"
proof -
  from assms have routed:
    "\<not> user_bot (author m)"
    "str_lower ops (clean_prompt ops client_user m) \<notin> JOIN_TOKENS"
    "str_lower ops (clean_prompt ops client_user m) \<notin> LEAVE_TOKENS"
    "should_respond st m"
    "clean_prompt ops client_user m \<noteq> []"
    by (simp_all add: on_message_begin_def Let_def split: if_splits)
  from assms routed obtain sid where sid: "session_id_of m = Inr sid"
    by (cases "session_id_of m") (simp_all add: on_message_begin_def Let_def)
  from assms routed sid have nr: "str_lower ops (clean_prompt ops client_user m) \<notin> RESET_TOKENS"
    by (simp add: on_message_begin_def Let_def split: if_splits)
  have b: "on_message_begin ops client_user st m =
      Awaiting (snd (get_session st sid))
        [Typing, SendMessage (chat_id (fst (get_session st sid))) (clean_prompt ops client_user m)]
        \<lparr>call_session = sid, call_prompt = clean_prompt ops client_user m,
         call_chat = chat_id (fst (get_session st sid)), call_message = m\<rparr>"
    using routed sid nr by (simp add: on_message_begin_def Let_def case_prod_beta)
  with assms have c: "c = \<lparr>call_session = sid, call_prompt = clean_prompt ops client_user m,
       call_chat = chat_id (fst (get_session st sid)), call_message = m\<rparr>"
    and st1: "st1 = snd (get_session st sid)"
    and evs: "evs = [Typing, SendMessage (chat_id (fst (get_session st sid))) (clean_prompt ops client_user m)]"
    by simp_all
  show "st1 = snd (get_session st (call_session c))" using c st1 by simp
  show "call_chat c = chat_id (fst (get_session st (call_session c)))" using c by simp
  show "session_id_of m = Inr (call_session c)" using c sid by simp
  show "call_message c = m" using c by simp
  show "evs = [Typing, SendMessage (call_chat c) (call_prompt c)]" using c evs by simp
  have "should_respond st1 m"
    using routed(4) st1 should_respond_registry [of st1 st m] by (simp add: get_session_properties)
  with routed sid nr show "on_message_begin ops client_user st1 m = Awaiting st1 evs c"
    unfolding c st1 evs
    by (simp add: on_message_begin_def Let_def get_session_properties case_prod_beta)
qed

lemma run_snoc: "run ops cu s (acts @ [a]) = step ops cu (run ops cu s acts) a"
  by (simp add: run_def)

lemma step_dispatch_awaiting:
  "on_message_begin ops cu (sys_state s) m = Awaiting st1 evs c \<Longrightarrow>
   step ops cu s (Dispatch m) =
     s\<lparr>sys_state := st1, in_flight := in_flight s @ [c], sys_events := sys_events s @ evs\<rparr>"
  by simp

section \<open>The sample data, evaluated\<close>

text \<open>
  What the model computes on the sample users, messages and services. The code points of the
  texts are large numbers, so these are evaluated by rewriting with the definitions.
\<close>

lemma sample_str_int:
  "str_int 1 = lit ''1''" "str_int 2 = lit ''2''" "str_int 3 = lit ''3''"
  "str_int 5 = lit ''5''" "str_int 6 = lit ''6''" "str_int 100 = lit ''100''"
  by (simp_all add: str_int_def decimal.simps [of "Suc 0"] decimal.simps [of 1] decimal.simps [of 2] decimal.simps [of 3]
      decimal.simps [of 5] decimal.simps [of 6] decimal.simps [of 10] decimal.simps [of 100] lit_def)

lemma sample_clean_prompt:
  "clean_prompt ascii_ops cu (guild_message u c body) = ascii_strip (lit body)"
  "clean_prompt ascii_ops cu (dm_message u body) = ascii_strip (lit body)"
  "clean_prompt ascii_ops cu (guildless_message u c body) = ascii_strip (lit body)"
  by (simp_all add: clean_prompt_def guild_message_def dm_message_def guildless_message_def
      ascii_ops_def Let_def split: option.splits)

lemma sample_session_id:
  "session_id_of (dm_message stranger body) = Inr (lit ''dm:3'')"
  "session_id_of (dm_message guest body) = Inr (lit ''dm:2'')"
  "session_id_of (guild_message guest 5 body) = Inr (lit ''guild:100:channel:5:user:2'')"
  "session_id_of (guild_message admin 5 body) = Inr (lit ''guild:100:channel:5:user:1'')"
  "session_id_of (guild_message guest 6 body) = Inr (lit ''guild:100:channel:6:user:2'')"
  by (simp_all add: session_id_of_def dm_message_def guild_message_def stranger_def guest_def
      admin_def sample_str_int) (simp_all add: lit_def)

lemma sample_users:
  "\<not> user_bot admin" "\<not> user_bot guest" "\<not> user_bot stranger"
  "has_manage_channels admin" "\<not> has_manage_channels guest" "\<not> has_manage_channels stranger"
  "user_id admin = 1" "user_id guest = 2" "user_id stranger = 3"
  by (simp_all add: admin_def guest_def stranger_def has_manage_channels_def)

lemma sample_messages:
  "author (guild_message u c body) = u" "channel (guild_message u c body) = OtherChannel (Some c)"
  "guild (guild_message u c body) = Some 100"
  "author (dm_message u body) = u" "channel (dm_message u body) = DMChannel 50"
  "guild (dm_message u body) = None"
  "author (guildless_message u c body) = u"
  "channel (guildless_message u c body) = OtherChannel (Some c)"
  "guild (guildless_message u c body) = None"
  "interaction_channel (slash u ch) = Some ch" "interaction_user (slash u ch) = u"
  by (simp_all add: guild_message_def dm_message_def guildless_message_def slash_def)

lemma sample_bodies:
  "ascii_strip (lit ''hello'') = lit ''hello''"
  "ascii_strip (lit ''again'') = lit ''again''"
  "ascii_strip (lit ''Hello'') = lit ''Hello''"
  "ascii_strip (lit ''Hello Bot'') = lit ''Hello Bot''"
  "ascii_strip (lit '' !JoIn '') = lit ''!JoIn''"
  "ascii_strip (lit ''!join'') = lit ''!join''"
  "ascii_strip (lit ''!JOIN'') = lit ''!JOIN''"
  "ascii_strip (lit ''/JOIN'') = lit ''/JOIN''"
  "ascii_strip (lit ''!leave'') = lit ''!leave''"
  "ascii_strip (lit ''/leave'') = lit ''/leave''"
  "ascii_strip (lit ''RESET'') = lit ''RESET''"
  "ascii_strip (lit ''  '') = []"
  by (simp_all add: ascii_strip_def ascii_space_def lit_def)

lemma sample_lower:
  "str_lower ascii_ops (lit ''hello'') = lit ''hello''"
  "str_lower ascii_ops (lit ''again'') = lit ''again''"
  "str_lower ascii_ops (lit ''Hello'') = lit ''hello''"
  "str_lower ascii_ops (lit ''Hello Bot'') = lit ''hello bot''"
  "str_lower ascii_ops (lit ''!JoIn'') = lit ''!join''"
  "str_lower ascii_ops (lit ''!join'') = lit ''!join''"
  "str_lower ascii_ops (lit ''!JOIN'') = lit ''!join''"
  "str_lower ascii_ops (lit ''/JOIN'') = lit ''/join''"
  "str_lower ascii_ops (lit ''!leave'') = lit ''!leave''"
  "str_lower ascii_ops (lit ''/leave'') = lit ''/leave''"
  "str_lower ascii_ops (lit ''RESET'') = lit ''reset''"
  by (simp_all add: ascii_ops_def ascii_lower_def lit_def)

lemma sample_tokens:
  "lit ''!join'' \<in> JOIN_TOKENS" "lit ''/join'' \<in> JOIN_TOKENS"
  "lit ''!leave'' \<in> LEAVE_TOKENS" "lit ''/leave'' \<in> LEAVE_TOKENS"
  "lit ''reset'' \<in> RESET_TOKENS"
  "lit ''hello'' \<notin> JOIN_TOKENS \<union> LEAVE_TOKENS \<union> RESET_TOKENS"
  "lit ''again'' \<notin> JOIN_TOKENS \<union> LEAVE_TOKENS \<union> RESET_TOKENS"
  "lit ''hello bot'' \<notin> JOIN_TOKENS \<union> LEAVE_TOKENS \<union> RESET_TOKENS"
  "lit ''reset'' \<notin> JOIN_TOKENS \<union> LEAVE_TOKENS"
  by (simp_all add: JOIN_TOKENS_def LEAVE_TOKENS_def RESET_TOKENS_def RESET_JA_def lit_def)

lemma sample_commands:
  "str_lower ascii_ops (clean_prompt ascii_ops cu (guild_message u c ''/JOIN'')) \<in> JOIN_TOKENS"
  "str_lower ascii_ops (clean_prompt ascii_ops cu (guild_message u c ''!join'')) \<in> JOIN_TOKENS"
  "str_lower ascii_ops (clean_prompt ascii_ops cu (guild_message u c ''!JOIN'')) \<in> JOIN_TOKENS"
  "str_lower ascii_ops (clean_prompt ascii_ops cu (dm_message u ''!join'')) \<in> JOIN_TOKENS"
  "str_lower ascii_ops (clean_prompt ascii_ops cu (guildless_message u c ''!join'')) \<in> JOIN_TOKENS"
  "str_lower ascii_ops (clean_prompt ascii_ops cu (guild_message u c ''!leave'')) \<in> LEAVE_TOKENS"
  "str_lower ascii_ops (clean_prompt ascii_ops cu (guild_message u c ''/leave'')) \<in> LEAVE_TOKENS"
  by (simp_all add: sample_clean_prompt sample_bodies sample_lower sample_tokens)

lemma sample_should_respond:
  "should_respond (initial_state {5}) (guild_message u 5 body)"
  "should_respond st (dm_message u body)"
  by (simp_all add: should_respond_def is_allowed_channel_def sample_messages initial_state_def)

lemma sample_generate:
  "fst (snd (generate ops svc (initial_state r) k p)) = [SendMessage 0 p]"
  "snd (snd (generate ascii_ops echo st k (lit ''Hello Bot''))) = Inr (lit ''Hello Bot'')"
  "snd (snd (generate ascii_ops blank st k p)) = Inl (ValueError (lit ''Empty response from Gemini''))"
  "snd (snd (generate ascii_ops outage st k p)) = Inl (ServiceError (lit ''503''))"
     apply (simp add: generate_unfold Let_def first_chat)
    apply (simp add: generate_unfold Let_def echo_def invoke_def ascii_ops_def sample_bodies)
    apply (simp add: lit_def)
   apply (simp add: generate_unfold Let_def blank_def invoke_def ascii_ops_def sample_bodies)
  apply (simp add: generate_unfold Let_def outage_def invoke_def)
  done

lemma sample_dm_begin:
  assumes "str_lower ascii_ops (ascii_strip (lit body)) \<notin> JOIN_TOKENS \<union> LEAVE_TOKENS \<union> RESET_TOKENS"
    and "ascii_strip (lit body) \<noteq> []"
  shows "on_message_begin ascii_ops cu st (dm_message stranger body) =
     Awaiting (snd (get_session st (lit ''dm:3'')))
       [Typing, SendMessage (chat_id (fst (get_session st (lit ''dm:3'')))) (ascii_strip (lit body))]
       \<lparr>call_session = lit ''dm:3'', call_prompt = ascii_strip (lit body),
        call_chat = chat_id (fst (get_session st (lit ''dm:3''))),
        call_message = dm_message stranger body\<rparr>"
proof (rule begin_generation)
  show "\<not> user_bot (author (dm_message stranger body))"
    by (simp add: sample_messages sample_users)
  show "clean_prompt ascii_ops cu (dm_message stranger body) = ascii_strip (lit body)"
    by (rule sample_clean_prompt)
  show "should_respond st (dm_message stranger body)"
    by (simp add: should_respond_def sample_messages)
  show "session_id_of (dm_message stranger body) = Inr (lit ''dm:3'')"
    by (rule sample_session_id)
qed (use assms in simp_all)

lemma ascii_lower_keeps_empty: "\<forall>s. (str_lower ascii_ops s = []) = (s = [])"
  by (simp add: ascii_ops_def ascii_lower_def)

section \<open>Access control: the registry decides for every channel but a direct one\<close>

text \<open>
  C2. \<open>_is_allowed_channel\<close> is true for a direct conversation whatever the registry holds;
  for every other channel it is true exactly when the channel has an id and that id is a
  member of \<open>allowed_channel_ids\<close>.
\<close>

theorem C2_is_allowed_channel:
  "is_allowed_channel st (DMChannel d) = True \<and>
   is_allowed_channel st (OtherChannel c) = (\<exists>i. c = Some i \<and> i \<in> allowed_channel_ids st)"
  by (cases c) (simp_all add: is_allowed_channel_def)

theorem C2_is_allowed_channel_witness:
  "is_allowed_channel (initial_state {}) (DMChannel 7) = True \<and>
   is_allowed_channel (initial_state {5}) (OtherChannel (Some 5)) = True \<and>
   is_allowed_channel (initial_state {5}) (OtherChannel (Some 6)) = False \<and>
   is_allowed_channel (initial_state {5}) (OtherChannel None) = False"
  using C2_is_allowed_channel [of "initial_state {}" 7 None]
    C2_is_allowed_channel [of "initial_state {5}" 7 "Some 5"]
    C2_is_allowed_channel [of "initial_state {5}" 7 "Some 6"]
    C2_is_allowed_channel [of "initial_state {5}" 7 None]
  by (simp add: initial_state_def)

section \<open>Silence in channels that are not registered\<close>

text \<open>
  C3. A message of a sender that is not a bot, whose normalised and lower-cased body is neither
  a join nor a leave token, in a channel that is not a direct conversation and whose id is not
  in the registry: \<open>on_message\<close> returns with no event at all (no reply, no error text, no
  typing indicator, no remote call), no exception, and the state unchanged.
\<close>

theorem C3_unregistered_channel_is_silent:
  assumes "\<not> user_bot (author m)"
    and "str_lower ops (clean_prompt ops client_user m) \<notin> JOIN_TOKENS \<union> LEAVE_TOKENS"
    and "channel m = OtherChannel (Some i)"
    and "i \<notin> allowed_channel_ids st"
  shows "on_message ops client_user svc st m = \<lparr>state_after = st, emitted = [], raised = None\<rparr>"
  using assms
  by (simp add: on_message_def Let_def should_respond_def is_allowed_channel_def returns_def)

theorem C3_unregistered_channel_is_silent_witness:
  "\<not> user_bot (author (guild_message guest 7 ''hello'')) \<and>
   str_lower ascii_ops (clean_prompt ascii_ops (Some self_user) (guild_message guest 7 ''hello''))
     \<notin> JOIN_TOKENS \<union> LEAVE_TOKENS \<and>
   channel (guild_message guest 7 ''hello'') = OtherChannel (Some 7) \<and>
   7 \<notin> allowed_channel_ids (initial_state {5}) \<and>
   on_message ascii_ops (Some self_user) echo (initial_state {5}) (guild_message guest 7 ''hello'') =
     \<lparr>state_after = initial_state {5}, emitted = [], raised = None\<rparr>"
proof -
  have h1: "\<not> user_bot (author (guild_message guest 7 ''hello''))"
    by (simp add: sample_messages sample_users)
  have h2: "str_lower ascii_ops (clean_prompt ascii_ops (Some self_user) (guild_message guest 7 ''hello''))
     \<notin> JOIN_TOKENS \<union> LEAVE_TOKENS"
    using sample_tokens(6) by (simp add: sample_clean_prompt sample_bodies sample_lower)
  have h3: "channel (guild_message guest 7 ''hello'') = OtherChannel (Some 7)"
    by (simp add: sample_messages)
  have h4: "7 \<notin> allowed_channel_ids (initial_state {5})"
    by (simp add: initial_state_def)
  from C3_unregistered_channel_is_silent [OF h1 h2 h3 h4] h1 h2 h3 h4 show ?thesis by blast
qed

section \<open>The order of classification\<close>

text \<open>
  C4. For a sender that is not a bot, \<open>on_message\<close> does what the classification of the
  specification says, taken in its priority order (join tokens, leave tokens, reset tokens,
  empty, generation) on the normalised body: a join or leave token runs the registration or
  deregistration block; otherwise a channel that is not answered is dropped silently;
  otherwise a reset token resets the session, an empty body gets the prompting text, and
  anything else is sent to \<open>generate\<close>. The tokens are matched on the lower-cased body, so
  they match in any letter case, and the prompt given to \<open>generate\<close> is the body before
  lower-casing. The code tests the empty body before the reset tokens and on the body before
  lower-casing; that is the same, lower-casing mapping the empty string, and only it, to the
  empty string (the second hypothesis, true of \<open>str.lower\<close>).
\<close>

theorem C4_classification_order:
  assumes "\<not> user_bot (author m)"
    and "\<forall>s. (str_lower ops s = []) = (s = [])"
  shows "on_message ops client_user svc st m =
     (case classify_spec ops (clean_prompt ops client_user m) of
        RegisterCommand \<Rightarrow> text_join st m
      | DeregisterCommand \<Rightarrow> text_leave st m
      | ResetCommand \<Rightarrow>
          if \<not> should_respond st m then returns st []
          else (case session_id_of m of
                  Inl e \<Rightarrow> raises st [] e
                | Inr sid \<Rightarrow> returns (reset st sid) [ChannelSend MSG_RESET_DONE])
      | EmptyInput \<Rightarrow>
          if \<not> should_respond st m then returns st []
          else returns st [ChannelSend MSG_EMPTY_PROMPT]
      | GenerationRequest prompt \<Rightarrow>
          if \<not> should_respond st m then returns st []
          else (case session_id_of m of
                  Inl e \<Rightarrow> raises st [] e
                | Inr sid \<Rightarrow>
                    (case generate ops svc st sid prompt of
                       (st', evs, Inl e) \<Rightarrow>
                         returns st' (Typing # evs @ [ChannelSend MSG_APOLOGY])
                     | (st', evs, Inr reply) \<Rightarrow>
                         returns st'
                           (Typing # evs @
                            [if is_dm (channel m) then ChannelSend reply
                             else MessageReply reply]))))"
proof -
  let ?p = "clean_prompt ops client_user m"
  let ?c = "str_lower ops ?p"
  have empty: "(?c = []) = (?p = [])" using assms(2) by simp
  have lower_nil: "str_lower ops [] = []" using assms(2) by simp
  consider (join) "?c \<in> JOIN_TOKENS"
    | (leave) "?c \<notin> JOIN_TOKENS" "?c \<in> LEAVE_TOKENS"
    | (reset) "?c \<notin> JOIN_TOKENS" "?c \<notin> LEAVE_TOKENS" "?c \<in> RESET_TOKENS"
    | (empty) "?c \<notin> JOIN_TOKENS" "?c \<notin> LEAVE_TOKENS" "?c \<notin> RESET_TOKENS" "?p = []"
    | (gen) "?c \<notin> JOIN_TOKENS" "?c \<notin> LEAVE_TOKENS" "?c \<notin> RESET_TOKENS" "?p \<noteq> []"
    by blast
  then show ?thesis
  proof cases
    case join
    then show ?thesis
      using assms(1) by (simp add: on_message_def classify_spec_def Let_def token_sets [symmetric])
  next
    case leave
    then show ?thesis
      using assms(1) by (simp add: on_message_def classify_spec_def Let_def token_sets [symmetric])
  next
    case reset
    then have "?p \<noteq> []" using tokens_disjoint(4) lower_nil by auto
    with reset show ?thesis
      using assms(1)
      by (simp add: on_message_def classify_spec_def Let_def token_sets [symmetric] split: sum.splits)
  next
    case empty
    then show ?thesis
      using assms(1) lower_nil
      by (simp add: on_message_def classify_spec_def Let_def token_sets [symmetric])
  next
    case gen
    then have "?c \<noteq> []" using empty by simp
    with gen show ?thesis
      using assms(1)
      by (simp add: on_message_def classify_spec_def Let_def token_sets [symmetric] split: sum.splits)
  qed
qed

theorem C4_classification_order_witness:
  "classify_spec ascii_ops (clean_prompt ascii_ops (Some self_user) (guild_message admin 5 '' !JoIn '')) = RegisterCommand \<and>
   on_message ascii_ops (Some self_user) echo (initial_state {}) (guild_message admin 5 '' !JoIn '') =
     text_join (initial_state {}) (guild_message admin 5 '' !JoIn '') \<and>
   classify_spec ascii_ops (clean_prompt ascii_ops (Some self_user) (guild_message guest 5 ''RESET'')) = ResetCommand \<and>
   emitted (on_message ascii_ops (Some self_user) echo (initial_state {5}) (guild_message guest 5 ''RESET'')) =
     [ChannelSend MSG_RESET_DONE] \<and>
   classify_spec ascii_ops (clean_prompt ascii_ops (Some self_user) (guild_message guest 5 ''Hello Bot'')) =
     GenerationRequest (lit ''Hello Bot'') \<and>
   emitted (on_message ascii_ops (Some self_user) echo (initial_state {5}) (guild_message guest 5 ''Hello Bot'')) =
     [Typing, SendMessage 0 (lit ''Hello Bot''), MessageReply (lit ''Hello Bot'')]"
proof -
  have nb: "\<not> user_bot (author (guild_message admin 5 body))"
    "\<not> user_bot (author (guild_message guest 5 body))" for body
    by (simp_all add: sample_messages sample_users)
  have c1: "classify_spec ascii_ops (clean_prompt ascii_ops (Some self_user) (guild_message admin 5 '' !JoIn '')) = RegisterCommand"
    by (simp add: classify_spec_def sample_clean_prompt sample_bodies sample_lower Let_def)
  have r1: "on_message ascii_ops (Some self_user) echo (initial_state {}) (guild_message admin 5 '' !JoIn '') =
     text_join (initial_state {}) (guild_message admin 5 '' !JoIn '')"
    using C4_classification_order [OF nb(1) [where body = "'' !JoIn ''"] ascii_lower_keeps_empty,
        where client_user = "Some self_user" and svc = echo and st = "initial_state {}"]
    by (simp add: c1)
  have c2: "classify_spec ascii_ops (clean_prompt ascii_ops (Some self_user) (guild_message guest 5 ''RESET'')) = ResetCommand"
    by (simp add: classify_spec_def sample_clean_prompt sample_bodies sample_lower Let_def)
      (simp add: lit_def)
  have r2: "emitted (on_message ascii_ops (Some self_user) echo (initial_state {5}) (guild_message guest 5 ''RESET'')) =
     [ChannelSend MSG_RESET_DONE]"
    using C4_classification_order [OF nb(2) [where body = "''RESET''"] ascii_lower_keeps_empty,
        where client_user = "Some self_user" and svc = echo and st = "initial_state {5}"]
    by (simp add: c2 sample_should_respond sample_session_id returns_def)
  have c3: "classify_spec ascii_ops (clean_prompt ascii_ops (Some self_user) (guild_message guest 5 ''Hello Bot'')) =
     GenerationRequest (lit ''Hello Bot'')"
    by (simp add: classify_spec_def sample_clean_prompt sample_bodies sample_lower Let_def)
      (simp add: lit_def RESET_JA_def)
  have d3: "\<not> is_dm (channel (guild_message guest 5 ''Hello Bot''))"
    by (simp add: sample_messages)
  have r3: "emitted (on_message ascii_ops (Some self_user) echo (initial_state {5}) (guild_message guest 5 ''Hello Bot'')) =
     [Typing, SendMessage 0 (lit ''Hello Bot''), MessageReply (lit ''Hello Bot'')]"
    using C4_classification_order [OF nb(2) [where body = "''Hello Bot''"] ascii_lower_keeps_empty,
        where client_user = "Some self_user" and svc = echo and st = "initial_state {5}"]
    by (simp add: c3 sample_should_respond sample_session_id d3 sample_generate case_prod_beta returns_def)
  from c1 r1 c2 r2 c3 r3 show ?thesis by blast
qed

section \<open>Session ids are deterministic and injective\<close>

text \<open>
  C5. The session id is a function of the message alone (no state enters it). In a direct
  conversation it is \<open>dm:\<close> followed by the sender's id; in a channel with id \<open>c\<close> of a guild
  \<open>g\<close> it is \<open>guild:g:channel:c:user:\<close> followed by the sender's id. It depends only on the
  kind of channel, the sender and, outside direct conversations, the guild and the channel:
  messages that agree on these get the same id. And it is injective in them: two messages
  with the same session id are of the same kind, from the same sender and, outside direct
  conversations, in the same guild and channel. (A direct conversation is identified by its
  user; the id of the direct channel is not part of the key.)
\<close>

theorem C5_session_key:
  "(is_dm (channel m) \<longrightarrow> session_id_of m = Inr (lit ''dm:'' @ str_int (user_id (author m)))) \<and>
   (channel m = OtherChannel (Some c) \<and> guild m = Some g \<longrightarrow>
      session_id_of m =
        Inr (lit ''guild:'' @ str_int g @ lit '':channel:'' @ str_int c @ lit '':user:''
             @ str_int (user_id (author m)))) \<and>
   (is_dm (channel m) = is_dm (channel m') \<and> user_id (author m) = user_id (author m') \<and>
    (\<not> is_dm (channel m) \<longrightarrow> guild m = guild m' \<and> channel_id (channel m) = channel_id (channel m'))
      \<longrightarrow> session_id_of m = session_id_of m') \<and>
   (session_id_of m = Inr k \<and> session_id_of m' = Inr k \<longrightarrow>
      is_dm (channel m) = is_dm (channel m') \<and> user_id (author m) = user_id (author m') \<and>
      (\<not> is_dm (channel m) \<longrightarrow> guild m = guild m' \<and> channel_id (channel m) = channel_id (channel m')))"
proof -
  have a: "is_dm (channel m) \<longrightarrow> session_id_of m = Inr (lit ''dm:'' @ str_int (user_id (author m)))"
    by (simp add: session_id_of_def)
  have b: "channel m = OtherChannel (Some c) \<and> guild m = Some g \<longrightarrow>
      session_id_of m =
        Inr (lit ''guild:'' @ str_int g @ lit '':channel:'' @ str_int c @ lit '':user:''
             @ str_int (user_id (author m)))"
    by (simp add: session_id_of_def)
  have c: "is_dm (channel m) = is_dm (channel m') \<and> user_id (author m) = user_id (author m') \<and>
    (\<not> is_dm (channel m) \<longrightarrow> guild m = guild m' \<and> channel_id (channel m) = channel_id (channel m'))
      \<longrightarrow> session_id_of m = session_id_of m'"
    by (auto simp: session_id_of_def split: option.splits)
  have d: "session_id_of m = Inr k \<and> session_id_of m' = Inr k \<longrightarrow>
      is_dm (channel m) = is_dm (channel m') \<and> user_id (author m) = user_id (author m') \<and>
      (\<not> is_dm (channel m) \<longrightarrow> guild m = guild m' \<and> channel_id (channel m) = channel_id (channel m'))"
  proof
    assume k: "session_id_of m = Inr k \<and> session_id_of m' = Inr k"
    then have k1: "session_id_of m = Inr k" and k2: "session_id_of m' = Inr k" by simp_all
    show "is_dm (channel m) = is_dm (channel m') \<and> user_id (author m) = user_id (author m') \<and>
      (\<not> is_dm (channel m) \<longrightarrow> guild m = guild m' \<and> channel_id (channel m) = channel_id (channel m'))"
    proof (cases "is_dm (channel m)")
      case True
      note dm = True
      show ?thesis
      proof (cases "is_dm (channel m')")
        case True
        from session_id_of_dm [OF dm k1] session_id_of_dm [OF True k2]
        have "user_id (author m) = user_id (author m')" by (simp add: str_int_inj)
        with dm True show ?thesis by simp
      next
        case False
        from dm_guild_keys_differ [OF dm False k1 k2] show ?thesis ..
      qed
    next
      case False
      note nd = False
      show ?thesis
      proof (cases "is_dm (channel m')")
        case True
        from dm_guild_keys_differ [OF True nd k2 k1] show ?thesis ..
      next
        case False
        from session_id_of_guild [OF nd k1] obtain g c where
          m: "guild m = Some g" "channel_id (channel m) = Some c"
             "k = lit ''guild:'' @ str_int g @ lit '':channel:'' @ str_int c @ lit '':user:'' @ str_int (user_id (author m))"
          by blast
        from session_id_of_guild [OF False k2] obtain g' c' where
          m': "guild m' = Some g'" "channel_id (channel m') = Some c'"
             "k = lit ''guild:'' @ str_int g' @ lit '':channel:'' @ str_int c' @ lit '':user:'' @ str_int (user_id (author m'))"
          by blast
        from m(3) m'(3) have "g = g' \<and> c = c' \<and> user_id (author m) = user_id (author m')"
          by (intro guild_key_inj) simp
        with m(1,2) m'(1,2) nd False show ?thesis by simp
      qed
    qed
  qed
  from a b c d show ?thesis by blast
qed

theorem C5_session_key_witness:
  "session_id_of (dm_message stranger ''hi'') = Inr (lit ''dm:3'') \<and>
   session_id_of (guild_message guest 5 ''hi'') = Inr (lit ''guild:100:channel:5:user:2'') \<and>
   session_id_of (guild_message guest 5 ''hi'') = session_id_of (guild_message guest 5 ''again'') \<and>
   session_id_of (guild_message admin 5 ''hi'') \<noteq> Inr (lit ''guild:100:channel:5:user:2'') \<and>
   session_id_of (guild_message guest 6 ''hi'') \<noteq> Inr (lit ''guild:100:channel:5:user:2'') \<and>
   session_id_of (dm_message guest ''hi'') \<noteq> Inr (lit ''guild:100:channel:5:user:2'')"
proof -
  let ?K = "lit ''guild:100:channel:5:user:2''"
  let ?m = "guild_message guest 5 ''hi''"
  have a: "session_id_of (dm_message stranger ''hi'') = Inr (lit ''dm:3'')"
    using C5_session_key [where m = "dm_message stranger ''hi''"]
    by (simp add: sample_messages sample_users sample_str_int) (simp add: lit_def)
  have b: "session_id_of ?m = Inr ?K"
    using C5_session_key [where m = ?m and c = 5 and g = 100]
    by (simp add: sample_messages sample_users sample_str_int) (simp add: lit_def)
  have c: "session_id_of ?m = session_id_of (guild_message guest 5 ''again'')"
    using C5_session_key [where m = ?m and m' = "guild_message guest 5 ''again''"]
    by (simp add: sample_messages)
  have inj: "session_id_of m' = Inr ?K \<Longrightarrow>
      is_dm (channel ?m) = is_dm (channel m') \<and> user_id (author ?m) = user_id (author m') \<and>
      (\<not> is_dm (channel ?m) \<longrightarrow> guild ?m = guild m' \<and> channel_id (channel ?m) = channel_id (channel m'))"
    for m'
    using C5_session_key [where m = ?m and m' = m' and k = ?K] b by blast
  have d: "session_id_of (guild_message admin 5 ''hi'') \<noteq> Inr ?K"
  proof
    assume "session_id_of (guild_message admin 5 ''hi'') = Inr ?K"
    from inj [OF this] show False by (simp add: sample_messages sample_users)
  qed
  have e: "session_id_of (guild_message guest 6 ''hi'') \<noteq> Inr ?K"
  proof
    assume "session_id_of (guild_message guest 6 ''hi'') = Inr ?K"
    from inj [OF this] show False by (simp add: sample_messages sample_users)
  qed
  have f: "session_id_of (dm_message guest ''hi'') \<noteq> Inr ?K"
  proof
    assume "session_id_of (dm_message guest ''hi'') = Inr ?K"
    from inj [OF this] show False by (simp add: sample_messages sample_users)
  qed
  from a b c d e f show ?thesis by blast
qed

section \<open>Commands that fail say why\<close>

text \<open>
  C6. Every registration or deregistration that fails for one of the named reasons, on the
  text path (a message of a sender that is not a bot whose lower-cased body is a token) and on
  the slash path, returns with the state it started from (\<open>returns st\<close>), so the registry is
  unchanged, and sends exactly one text, fixed by the reason: a direct conversation, a sender
  without the privilege, a channel already registered (join) or not registered (leave). These
  texts differ from one another and from the apology that \<open>on_message\<close> sends when
  generation fails.
\<close>

theorem C6_failed_commands_say_why:
  assumes "\<not> user_bot (author m)"
  shows
   "(str_lower ops (clean_prompt ops client_user m) \<in> JOIN_TOKENS \<longrightarrow>
       (is_dm (channel m) \<longrightarrow>
          on_message ops client_user svc st m = returns st [ChannelSend MSG_TEXT_GUILD_ONLY]) \<and>
       (\<not> is_dm (channel m) \<and> \<not> has_manage_channels (author m) \<longrightarrow>
          on_message ops client_user svc st m = returns st [ChannelSend MSG_TEXT_JOIN_DENIED]) \<and>
       (channel m = OtherChannel (Some c) \<and> guild m \<noteq> None \<and> has_manage_channels (author m) \<and>
        c \<in> allowed_channel_ids st \<longrightarrow>
          on_message ops client_user svc st m = returns st [ChannelSend MSG_TEXT_JOIN_ALREADY])) \<and>
    (str_lower ops (clean_prompt ops client_user m) \<in> LEAVE_TOKENS \<longrightarrow>
       (is_dm (channel m) \<longrightarrow>
          on_message ops client_user svc st m = returns st [ChannelSend MSG_TEXT_GUILD_ONLY]) \<and>
       (\<not> is_dm (channel m) \<and> \<not> has_manage_channels (author m) \<longrightarrow>
          on_message ops client_user svc st m = returns st [ChannelSend MSG_TEXT_LEAVE_DENIED]) \<and>
       (channel m = OtherChannel (Some c) \<and> guild m \<noteq> None \<and> has_manage_channels (author m) \<and>
        c \<notin> allowed_channel_ids st \<longrightarrow>
          on_message ops client_user svc st m = returns st [ChannelSend MSG_NOT_REGISTERED])) \<and>
    (interaction_channel i = Some ch \<longrightarrow>
       (is_dm ch \<longrightarrow>
          register_channel st i = returns st [InteractionSend MSG_SLASH_GUILD_ONLY] \<and>
          unregister_channel st i = returns st [InteractionSend MSG_SLASH_GUILD_ONLY]) \<and>
       (\<not> is_dm ch \<and> \<not> has_manage_channels (interaction_user i) \<longrightarrow>
          register_channel st i = returns st [InteractionSend MSG_SLASH_JOIN_DENIED] \<and>
          unregister_channel st i = returns st [InteractionSend MSG_SLASH_LEAVE_DENIED]) \<and>
       (ch = OtherChannel (Some c) \<and> has_manage_channels (interaction_user i) \<and>
        c \<in> allowed_channel_ids st \<longrightarrow>
          register_channel st i = returns st [InteractionSend MSG_SLASH_JOIN_ALREADY]) \<and>
       (ch = OtherChannel (Some c) \<and> has_manage_channels (interaction_user i) \<and>
        c \<notin> allowed_channel_ids st \<longrightarrow>
          unregister_channel st i = returns st [InteractionSend MSG_NOT_REGISTERED])) \<and>
    state_after (returns st evs) = st \<and>
    distinct [MSG_APOLOGY, MSG_TEXT_GUILD_ONLY, MSG_TEXT_JOIN_DENIED, MSG_TEXT_JOIN_ALREADY,
              MSG_TEXT_LEAVE_DENIED, MSG_NOT_REGISTERED, MSG_SLASH_GUILD_ONLY,
              MSG_SLASH_JOIN_DENIED, MSG_SLASH_JOIN_ALREADY, MSG_SLASH_LEAVE_DENIED]"
proof -
  have j: "str_lower ops (clean_prompt ops client_user m) \<in> JOIN_TOKENS \<longrightarrow>
       (is_dm (channel m) \<longrightarrow>
          on_message ops client_user svc st m = returns st [ChannelSend MSG_TEXT_GUILD_ONLY]) \<and>
       (\<not> is_dm (channel m) \<and> \<not> has_manage_channels (author m) \<longrightarrow>
          on_message ops client_user svc st m = returns st [ChannelSend MSG_TEXT_JOIN_DENIED]) \<and>
       (channel m = OtherChannel (Some c) \<and> guild m \<noteq> None \<and> has_manage_channels (author m) \<and>
        c \<in> allowed_channel_ids st \<longrightarrow>
          on_message ops client_user svc st m = returns st [ChannelSend MSG_TEXT_JOIN_ALREADY])"
    using assms by (simp add: on_message_join text_join_failures)
  have l: "str_lower ops (clean_prompt ops client_user m) \<in> LEAVE_TOKENS \<longrightarrow>
       (is_dm (channel m) \<longrightarrow>
          on_message ops client_user svc st m = returns st [ChannelSend MSG_TEXT_GUILD_ONLY]) \<and>
       (\<not> is_dm (channel m) \<and> \<not> has_manage_channels (author m) \<longrightarrow>
          on_message ops client_user svc st m = returns st [ChannelSend MSG_TEXT_LEAVE_DENIED]) \<and>
       (channel m = OtherChannel (Some c) \<and> guild m \<noteq> None \<and> has_manage_channels (author m) \<and>
        c \<notin> allowed_channel_ids st \<longrightarrow>
          on_message ops client_user svc st m = returns st [ChannelSend MSG_NOT_REGISTERED])"
    using assms by (simp add: on_message_leave text_leave_failures)
  have s: "interaction_channel i = Some ch \<longrightarrow>
       (is_dm ch \<longrightarrow>
          register_channel st i = returns st [InteractionSend MSG_SLASH_GUILD_ONLY] \<and>
          unregister_channel st i = returns st [InteractionSend MSG_SLASH_GUILD_ONLY]) \<and>
       (\<not> is_dm ch \<and> \<not> has_manage_channels (interaction_user i) \<longrightarrow>
          register_channel st i = returns st [InteractionSend MSG_SLASH_JOIN_DENIED] \<and>
          unregister_channel st i = returns st [InteractionSend MSG_SLASH_LEAVE_DENIED]) \<and>
       (ch = OtherChannel (Some c) \<and> has_manage_channels (interaction_user i) \<and>
        c \<in> allowed_channel_ids st \<longrightarrow>
          register_channel st i = returns st [InteractionSend MSG_SLASH_JOIN_ALREADY]) \<and>
       (ch = OtherChannel (Some c) \<and> has_manage_channels (interaction_user i) \<and>
        c \<notin> allowed_channel_ids st \<longrightarrow>
          unregister_channel st i = returns st [InteractionSend MSG_NOT_REGISTERED])"
    by (simp add: register_channel_failures unregister_channel_failures)
  have r: "state_after (returns st evs) = st" by (simp add: returns_def)
  from j l s r failure_texts_distinct show ?thesis by blast
qed

theorem C6_failed_commands_say_why_witness:
  "emitted (on_message ascii_ops (Some self_user) echo (initial_state {}) (guild_message guest 5 ''/JOIN'')) =
     [ChannelSend MSG_TEXT_JOIN_DENIED] \<and>
   allowed_channel_ids (state_after (on_message ascii_ops (Some self_user) echo (initial_state {})
     (guild_message guest 5 ''/JOIN''))) = {} \<and>
   emitted (on_message ascii_ops (Some self_user) echo (initial_state {}) (dm_message stranger ''!join'')) =
     [ChannelSend MSG_TEXT_GUILD_ONLY] \<and>
   emitted (on_message ascii_ops (Some self_user) echo (initial_state {5}) (guild_message admin 5 ''!join'')) =
     [ChannelSend MSG_TEXT_JOIN_ALREADY] \<and>
   allowed_channel_ids (state_after (on_message ascii_ops (Some self_user) echo (initial_state {5})
     (guild_message admin 5 ''!join''))) = {5} \<and>
   emitted (on_message ascii_ops (Some self_user) echo (initial_state {}) (guild_message admin 5 ''!leave'')) =
     [ChannelSend MSG_NOT_REGISTERED] \<and>
   emitted (on_message ascii_ops (Some self_user) echo (initial_state {5}) (guild_message guest 5 ''/leave'')) =
     [ChannelSend MSG_TEXT_LEAVE_DENIED] \<and>
   allowed_channel_ids (state_after (on_message ascii_ops (Some self_user) echo (initial_state {5})
     (guild_message guest 5 ''/leave''))) = {5} \<and>
   emitted (register_channel (initial_state {}) (slash guest (OtherChannel (Some 5)))) =
     [InteractionSend MSG_SLASH_JOIN_DENIED] \<and>
   emitted (unregister_channel (initial_state {}) (slash admin (OtherChannel (Some 5)))) =
     [InteractionSend MSG_NOT_REGISTERED] \<and>
   emitted (register_channel (initial_state {}) (slash admin (DMChannel 50))) =
     [InteractionSend MSG_SLASH_GUILD_ONLY] \<and>
   MSG_TEXT_JOIN_DENIED \<noteq> MSG_APOLOGY"
proof -
  let ?cu = "Some self_user"
  have nb: "\<not> user_bot (author (guild_message guest 5 body))"
    "\<not> user_bot (author (dm_message stranger body))"
    "\<not> user_bot (author (guild_message admin 5 body))" for body
    by (simp_all add: sample_messages sample_users)
  have facts:
    "\<not> is_dm (channel (guild_message guest 5 body)) \<and> \<not> has_manage_channels (author (guild_message guest 5 body))"
    "is_dm (channel (dm_message stranger body))"
    "channel (guild_message admin 5 body) = OtherChannel (Some 5) \<and> guild (guild_message admin 5 body) \<noteq> None \<and>
     has_manage_channels (author (guild_message admin 5 body))"
    "5 \<in> allowed_channel_ids (initial_state {5})" "5 \<notin> allowed_channel_ids (initial_state {})"
    for body
    by (simp_all add: sample_messages sample_users initial_state_def)
  have ifacts:
    "interaction_channel (slash u ch) = Some ch"
    "\<not> is_dm (OtherChannel (Some 5))" "is_dm (DMChannel 50)"
    "\<not> has_manage_channels (interaction_user (slash guest ch))"
    "has_manage_channels (interaction_user (slash admin ch))"
    for u ch
    by (simp_all add: sample_messages sample_users)
  have reg: "allowed_channel_ids (initial_state {}) = {}" "allowed_channel_ids (initial_state {5}) = {5}"
    by (simp_all add: initial_state_def)
  note T1 = C6_failed_commands_say_why [OF nb(1) [where body = "''/JOIN''"], where ops = ascii_ops
      and client_user = ?cu and c = 5 and st = "initial_state {}" and svc = echo
      and i = "slash guest (OtherChannel (Some 5))" and ch = "OtherChannel (Some 5)" and evs = "[]"]
  note T2 = C6_failed_commands_say_why [OF nb(2) [where body = "''!join''"], where ops = ascii_ops
      and client_user = ?cu and c = 5 and st = "initial_state {}" and svc = echo
      and i = "slash admin (OtherChannel (Some 5))" and ch = "OtherChannel (Some 5)" and evs = "[]"]
  note T3 = C6_failed_commands_say_why [OF nb(3) [where body = "''!join''"], where ops = ascii_ops
      and client_user = ?cu and c = 5 and st = "initial_state {5}" and svc = echo
      and i = "slash admin (DMChannel 50)" and ch = "DMChannel 50" and evs = "[]"]
  note T4 = C6_failed_commands_say_why [OF nb(3) [where body = "''!leave''"], where ops = ascii_ops
      and client_user = ?cu and c = 5 and st = "initial_state {}" and svc = echo
      and i = "slash admin (DMChannel 50)" and ch = "DMChannel 50" and evs = "[]"]
  note T5 = C6_failed_commands_say_why [OF nb(1) [where body = "''/leave''"], where ops = ascii_ops
      and client_user = ?cu and c = 5 and st = "initial_state {5}" and svc = echo
      and i = "slash admin (DMChannel 50)" and ch = "DMChannel 50" and evs = "[]"]
  have w1: "on_message ascii_ops ?cu echo (initial_state {}) (guild_message guest 5 ''/JOIN'') =
      returns (initial_state {}) [ChannelSend MSG_TEXT_JOIN_DENIED]"
    using T1 sample_commands(1) facts(1) by simp
  have w2: "on_message ascii_ops ?cu echo (initial_state {}) (dm_message stranger ''!join'') =
      returns (initial_state {}) [ChannelSend MSG_TEXT_GUILD_ONLY]"
    using T2 sample_commands(4) facts(2) by simp
  have w3: "on_message ascii_ops ?cu echo (initial_state {5}) (guild_message admin 5 ''!join'') =
      returns (initial_state {5}) [ChannelSend MSG_TEXT_JOIN_ALREADY]"
    using T3 sample_commands(2) facts(3,4) by simp
  have w4: "on_message ascii_ops ?cu echo (initial_state {}) (guild_message admin 5 ''!leave'') =
      returns (initial_state {}) [ChannelSend MSG_NOT_REGISTERED]"
    using T4 sample_commands(6) facts(3,5) by simp
  have w5: "on_message ascii_ops ?cu echo (initial_state {5}) (guild_message guest 5 ''/leave'') =
      returns (initial_state {5}) [ChannelSend MSG_TEXT_LEAVE_DENIED]"
    using T5 sample_commands(7) facts(1) by simp
  have w6: "register_channel (initial_state {}) (slash guest (OtherChannel (Some 5))) =
      returns (initial_state {}) [InteractionSend MSG_SLASH_JOIN_DENIED]"
    using T1 ifacts(1,2,4) by simp
  have w7: "unregister_channel (initial_state {}) (slash admin (OtherChannel (Some 5))) =
      returns (initial_state {}) [InteractionSend MSG_NOT_REGISTERED]"
    using T2 ifacts(1,5) facts(5) by simp
  have w8: "register_channel (initial_state {}) (slash admin (DMChannel 50)) =
      returns (initial_state {}) [InteractionSend MSG_SLASH_GUILD_ONLY]"
    using T4 ifacts(1,3) by simp
  have w9: "MSG_TEXT_JOIN_DENIED \<noteq> MSG_APOLOGY"
  proof -
    from T1 have "distinct [MSG_APOLOGY, MSG_TEXT_GUILD_ONLY, MSG_TEXT_JOIN_DENIED, MSG_TEXT_JOIN_ALREADY,
              MSG_TEXT_LEAVE_DENIED, MSG_NOT_REGISTERED, MSG_SLASH_GUILD_ONLY,
              MSG_SLASH_JOIN_DENIED, MSG_SLASH_JOIN_ALREADY, MSG_SLASH_LEAVE_DENIED]"
      by simp
    then show ?thesis by auto
  qed
  show ?thesis
    by (simp add: w1 w2 w3 w4 w5 w6 w7 w8 w9 returns_def reg)
qed

section \<open>The slash path and the text path\<close>

text \<open>
  C7. For a text message of a sender that is not a bot and a slash interaction with the same
  privilege of the actor, the same kind of channel, the same channel id and the same registry:
  the registry after the text join equals the registry after \<open>register_channel\<close>, and the
  registry after the text leave equals the registry after \<open>unregister_channel\<close>, so one
  path inserts or removes the id exactly when the other does. Two facts about what the
  platform delivers are hypotheses. The sender is not a bot: a slash command is issued by a
  person, and \<open>on_message\<close> returns at once for a bot (line 219). A message without guild is
  a direct conversation or its author has no privilege: guild permissions belong to a member
  of a guild, and \<open>getattr(actor, "guild_permissions", None)\<close> finds none on anyone else.
  Direct conversations, messages in a guild and unprivileged authors anywhere are all
  covered; with that, the test \<open>message.guild is None\<close>, which only the text path makes
  (lines 229 and 243), never decides alone.
\<close>

theorem C7_slash_and_text_agree:
  assumes "\<not> user_bot (author m)"
    and "guild m = None \<longrightarrow> is_dm (channel m) \<or> \<not> has_manage_channels (author m)"
    and "has_manage_channels (interaction_user i) = has_manage_channels (author m)"
    and "interaction_channel i = Some ch"
    and "is_dm ch = is_dm (channel m)"
    and "channel_id ch = channel_id (channel m)"
    and "allowed_channel_ids st' = allowed_channel_ids st"
  shows
   "(str_lower ops (clean_prompt ops client_user m) \<in> JOIN_TOKENS \<longrightarrow>
       allowed_channel_ids (state_after (on_message ops client_user svc st m)) =
       allowed_channel_ids (state_after (register_channel st' i))) \<and>
    (str_lower ops (clean_prompt ops client_user m) \<in> LEAVE_TOKENS \<longrightarrow>
       allowed_channel_ids (state_after (on_message ops client_user svc st m)) =
       allowed_channel_ids (state_after (unregister_channel st' i)))"
  using assms
  by (auto simp: on_message_join on_message_leave registry_text_join registry_text_leave
      registry_register_channel registry_unregister_channel split: option.splits)

theorem C7_slash_and_text_agree_witness:
  "str_lower ascii_ops (clean_prompt ascii_ops (Some self_user) (guild_message admin 5 ''!JOIN'')) \<in> JOIN_TOKENS \<and>
   allowed_channel_ids (state_after (on_message ascii_ops (Some self_user) echo (initial_state {})
      (guild_message admin 5 ''!JOIN''))) =
   allowed_channel_ids (state_after (register_channel (initial_state {}) (slash admin (OtherChannel (Some 5))))) \<and>
   allowed_channel_ids (state_after (register_channel (initial_state {}) (slash admin (OtherChannel (Some 5))))) = {5} \<and>
   str_lower ascii_ops (clean_prompt ascii_ops (Some self_user) (guild_message admin 5 ''/leave'')) \<in> LEAVE_TOKENS \<and>
   allowed_channel_ids (state_after (on_message ascii_ops (Some self_user) echo (initial_state {5})
      (guild_message admin 5 ''/leave''))) =
   allowed_channel_ids (state_after (unregister_channel (initial_state {5}) (slash admin (OtherChannel (Some 5))))) \<and>
   allowed_channel_ids (state_after (unregister_channel (initial_state {5}) (slash admin (OtherChannel (Some 5))))) = {} \<and>
   guild (guildless_message stranger 5 ''!join'') = None \<and>
   \<not> has_manage_channels (author (guildless_message stranger 5 ''!join'')) \<and>
   str_lower ascii_ops (clean_prompt ascii_ops (Some self_user) (guildless_message stranger 5 ''!join'')) \<in> JOIN_TOKENS \<and>
   allowed_channel_ids (state_after (on_message ascii_ops (Some self_user) echo (initial_state {})
      (guildless_message stranger 5 ''!join''))) =
   allowed_channel_ids (state_after (register_channel (initial_state {}) (slash stranger (OtherChannel (Some 5))))) \<and>
   allowed_channel_ids (state_after (register_channel (initial_state {}) (slash stranger (OtherChannel (Some 5))))) = {} \<and>
   guild (dm_message stranger ''!join'') = None \<and>
   is_dm (channel (dm_message stranger ''!join'')) \<and>
   str_lower ascii_ops (clean_prompt ascii_ops (Some self_user) (dm_message stranger ''!join'')) \<in> JOIN_TOKENS \<and>
   allowed_channel_ids (state_after (on_message ascii_ops (Some self_user) echo (initial_state {})
      (dm_message stranger ''!join''))) =
   allowed_channel_ids (state_after (register_channel (initial_state {}) (slash stranger (DMChannel 50)))) \<and>
   allowed_channel_ids (state_after (register_channel (initial_state {}) (slash stranger (DMChannel 50)))) = {}"
proof -
  have h: "\<not> user_bot (author (guild_message admin 5 body))"
    "guild (guild_message admin 5 body) = None \<longrightarrow>
       is_dm (channel (guild_message admin 5 body)) \<or>
       \<not> has_manage_channels (author (guild_message admin 5 body))"
    "has_manage_channels (interaction_user (slash admin (OtherChannel (Some 5)))) =
     has_manage_channels (author (guild_message admin 5 body))"
    "interaction_channel (slash admin (OtherChannel (Some 5))) = Some (OtherChannel (Some 5))"
    "is_dm (OtherChannel (Some 5)) = is_dm (channel (guild_message admin 5 body))"
    "channel_id (OtherChannel (Some 5)) = channel_id (channel (guild_message admin 5 body))"
    for body
    by (simp_all add: sample_messages sample_users)
  have g: "\<not> user_bot (author (guildless_message stranger 5 ''!join''))"
    "guild (guildless_message stranger 5 ''!join'') = None \<longrightarrow>
       is_dm (channel (guildless_message stranger 5 ''!join'')) \<or>
       \<not> has_manage_channels (author (guildless_message stranger 5 ''!join''))"
    "has_manage_channels (interaction_user (slash stranger (OtherChannel (Some 5)))) =
     has_manage_channels (author (guildless_message stranger 5 ''!join''))"
    "interaction_channel (slash stranger (OtherChannel (Some 5))) = Some (OtherChannel (Some 5))"
    "is_dm (OtherChannel (Some 5)) = is_dm (channel (guildless_message stranger 5 ''!join''))"
    "channel_id (OtherChannel (Some 5)) = channel_id (channel (guildless_message stranger 5 ''!join''))"
    by (simp_all add: sample_messages sample_users)
  have d: "\<not> user_bot (author (dm_message stranger ''!join''))"
    "guild (dm_message stranger ''!join'') = None \<longrightarrow>
       is_dm (channel (dm_message stranger ''!join'')) \<or>
       \<not> has_manage_channels (author (dm_message stranger ''!join''))"
    "has_manage_channels (interaction_user (slash stranger (DMChannel 50))) =
     has_manage_channels (author (dm_message stranger ''!join''))"
    "interaction_channel (slash stranger (DMChannel 50)) = Some (DMChannel 50)"
    "is_dm (DMChannel 50) = is_dm (channel (dm_message stranger ''!join''))"
    "channel_id (DMChannel 50) = channel_id (channel (dm_message stranger ''!join''))"
    by (simp_all add: sample_messages sample_users)
  have e1: "allowed_channel_ids (state_after (register_channel (initial_state {}) (slash admin (OtherChannel (Some 5))))) = {5}"
    by (simp add: registry_register_channel sample_messages sample_users initial_state_def)
  have e2: "allowed_channel_ids (state_after (unregister_channel (initial_state {5}) (slash admin (OtherChannel (Some 5))))) = {}"
    by (simp add: registry_unregister_channel sample_messages sample_users initial_state_def)
  have e3: "allowed_channel_ids (state_after (register_channel (initial_state {}) (slash stranger (OtherChannel (Some 5))))) = {}"
    by (simp add: registry_register_channel sample_messages sample_users initial_state_def)
  have e4: "allowed_channel_ids (state_after (register_channel (initial_state {}) (slash stranger (DMChannel 50)))) = {}"
    by (simp add: registry_register_channel sample_messages sample_users initial_state_def)
  have j: "allowed_channel_ids (state_after (on_message ascii_ops (Some self_user) echo (initial_state {})
      (guild_message admin 5 ''!JOIN''))) =
   allowed_channel_ids (state_after (register_channel (initial_state {}) (slash admin (OtherChannel (Some 5)))))"
    using C7_slash_and_text_agree [OF h(1) [where body = "''!JOIN''"] h(2) h(3) h(4) h(5) h(6) refl,
      where ops = ascii_ops and client_user = "Some self_user" and svc = echo and st = "initial_state {}"]
      sample_commands(3)
    by simp
  have l: "allowed_channel_ids (state_after (on_message ascii_ops (Some self_user) echo (initial_state {5})
      (guild_message admin 5 ''/leave''))) =
   allowed_channel_ids (state_after (unregister_channel (initial_state {5}) (slash admin (OtherChannel (Some 5)))))"
    using C7_slash_and_text_agree [OF h(1) [where body = "''/leave''"] h(2) h(3) h(4) h(5) h(6) refl,
      where ops = ascii_ops and client_user = "Some self_user" and svc = echo and st = "initial_state {5}"]
      sample_commands(7)
    by simp
  have n: "allowed_channel_ids (state_after (on_message ascii_ops (Some self_user) echo (initial_state {})
      (guildless_message stranger 5 ''!join''))) =
   allowed_channel_ids (state_after (register_channel (initial_state {}) (slash stranger (OtherChannel (Some 5)))))"
    using C7_slash_and_text_agree [OF g(1) g(2) g(3) g(4) g(5) g(6) refl,
      where ops = ascii_ops and client_user = "Some self_user" and svc = echo and st = "initial_state {}"]
      sample_commands(5)
    by simp
  have p: "allowed_channel_ids (state_after (on_message ascii_ops (Some self_user) echo (initial_state {})
      (dm_message stranger ''!join''))) =
   allowed_channel_ids (state_after (register_channel (initial_state {}) (slash stranger (DMChannel 50))))"
    using C7_slash_and_text_agree [OF d(1) d(2) d(3) d(4) d(5) d(6) refl,
      where ops = ascii_ops and client_user = "Some self_user" and svc = echo and st = "initial_state {}"]
      sample_commands(4)
    by simp
  have facts: "guild (guildless_message stranger 5 ''!join'') = None"
    "\<not> has_manage_channels (author (guildless_message stranger 5 ''!join''))"
    "guild (dm_message stranger ''!join'') = None"
    "is_dm (channel (dm_message stranger ''!join''))"
    by (simp_all add: sample_messages sample_users)
  from j l n p e1 e2 e3 e4 facts
    sample_commands(3) [of "Some self_user" admin 5] sample_commands(7) [of "Some self_user" admin 5]
    sample_commands(5) [of "Some self_user" stranger 5] sample_commands(4) [of "Some self_user" stranger]
  show ?thesis by simp
qed

section \<open>A generation that fails\<close>

text \<open>
  C8. A message that \<open>on_message\<close> routes to \<open>generate\<close> (sender not a bot, channel
  answered, body not empty and no token), with a remote call that either raises or returns a
  text that is empty after \<open>strip\<close> (\<open>None\<close> counts as empty): \<open>generate\<close> ends in an
  exception (\<open>ValueError\<close> for the blank text, the service's own otherwise), and
  \<open>on_message\<close> sends, after the typing indicator and the remote call, exactly one text, the
  fixed apology, which is not empty and does not depend on the exception. The handler itself
  raises nothing.
\<close>

theorem C8_generation_failure_gives_apology:
  assumes "\<not> user_bot (author m)"
    and "clean_prompt ops client_user m = p"
    and "str_lower ops p \<notin> JOIN_TOKENS \<union> LEAVE_TOKENS \<union> RESET_TOKENS"
    and "should_respond st m"
    and "p \<noteq> []"
    and "session_id_of m = Inr k"
    and "svc (history (fst (get_session st k))) p = (h, r)"
    and "(\<exists>d. r = Raises d) \<or> (\<exists>t. r = Response t \<and> str_strip ops (case t of None \<Rightarrow> [] | Some x \<Rightarrow> x) = [])"
  shows "snd (snd (generate ops svc st k p)) =
           (case r of Raises d \<Rightarrow> Inl (ServiceError d)
                    | Response t \<Rightarrow> Inl (ValueError (lit ''Empty response from Gemini''))) \<and>
         emitted (on_message ops client_user svc st m) =
           [Typing, SendMessage (chat_id (fst (get_session st k))) p, ChannelSend MSG_APOLOGY] \<and>
         raised (on_message ops client_user svc st m) = None \<and>
         MSG_APOLOGY \<noteq> []"
proof -
  have inv: "invoke ops r = (case r of Raises d \<Rightarrow> Inl (ServiceError d)
                    | Response t \<Rightarrow> Inl (ValueError (lit ''Empty response from Gemini'')))"
    using assms(8) by (auto simp: invoke_blank invoke_raises)
  have gen: "generate ops svc st k p =
      ((snd (get_session st k))\<lparr>sessions := (sessions (snd (get_session st k)))(k \<mapsto> (fst (get_session st k))\<lparr>history := h\<rparr>)\<rparr>,
       [SendMessage (chat_id (fst (get_session st k))) p], invoke ops r)"
    using assms(7) by (simp add: generate_unfold Let_def)
  have isl: "\<exists>e. invoke ops r = Inl e"
    using inv by (cases r) simp_all
  then obtain e where e: "invoke ops r = Inl e" ..
  have om: "on_message ops client_user svc st m =
      returns ((snd (get_session st k))\<lparr>sessions := (sessions (snd (get_session st k)))(k \<mapsto> (fst (get_session st k))\<lparr>history := h\<rparr>)\<rparr>)
        [Typing, SendMessage (chat_id (fst (get_session st k))) p, ChannelSend MSG_APOLOGY]"
    using on_message_generation [OF assms(1-6), of svc] by (simp add: gen e)
  show ?thesis
    using inv by (simp add: om gen returns_def MSG_APOLOGY_nonempty)
qed

theorem C8_generation_failure_gives_apology_witness:
  "emitted (on_message ascii_ops (Some self_user) blank (initial_state {5}) (guild_message guest 5 ''Hello'')) =
     [Typing, SendMessage 0 (lit ''Hello''), ChannelSend MSG_APOLOGY] \<and>
   snd (snd (generate ascii_ops blank (initial_state {5}) (lit ''guild:100:channel:5:user:2'') (lit ''Hello''))) =
     Inl (ValueError (lit ''Empty response from Gemini'')) \<and>
   emitted (on_message ascii_ops (Some self_user) outage (initial_state {5}) (guild_message guest 5 ''Hello'')) =
     [Typing, SendMessage 0 (lit ''Hello''), ChannelSend MSG_APOLOGY] \<and>
   snd (snd (generate ascii_ops outage (initial_state {5}) (lit ''guild:100:channel:5:user:2'') (lit ''Hello''))) =
     Inl (ServiceError (lit ''503''))"
proof -
  let ?m = "guild_message guest 5 ''Hello''"
  let ?k = "lit ''guild:100:channel:5:user:2''"
  have h1: "\<not> user_bot (author ?m)" by (simp add: sample_messages sample_users)
  have h2: "clean_prompt ascii_ops (Some self_user) ?m = lit ''Hello''"
    by (simp add: sample_clean_prompt sample_bodies)
  have h3: "str_lower ascii_ops (lit ''Hello'') \<notin> JOIN_TOKENS \<union> LEAVE_TOKENS \<union> RESET_TOKENS"
    by (simp only: sample_lower sample_tokens not_False_eq_True)
  have h4: "should_respond (initial_state {5}) ?m" by (rule sample_should_respond)
  have h5: "lit ''Hello'' \<noteq> []" by (simp add: lit_def)
  have h6: "session_id_of ?m = Inr ?k" by (rule sample_session_id)
  have b7: "blank (history (fst (get_session (initial_state {5}) ?k))) (lit ''Hello'') =
      (history (fst (get_session (initial_state {5}) ?k)) @ [(lit ''Hello'', lit ''  '')],
       Response (Some (lit ''  '')))"
    by (simp add: blank_def)
  have b8: "(\<exists>d. Response (Some (lit ''  '')) = Raises d) \<or>
      (\<exists>t. Response (Some (lit ''  '')) = Response t \<and>
           str_strip ascii_ops (case t of None \<Rightarrow> [] | Some x \<Rightarrow> x) = [])"
    by (simp add: ascii_ops_def sample_bodies)
  have o7: "outage (history (fst (get_session (initial_state {5}) ?k))) (lit ''Hello'') =
      (history (fst (get_session (initial_state {5}) ?k)), Raises (lit ''503''))"
    by (simp add: outage_def)
  have o8: "(\<exists>d. Raises (lit ''503'') = Raises d) \<or>
      (\<exists>t. Raises (lit ''503'') = Response t \<and>
           str_strip ascii_ops (case t of None \<Rightarrow> [] | Some x \<Rightarrow> x) = [])"
    by simp
  from C8_generation_failure_gives_apology [where svc = blank, OF h1 h2 h3 h4 h5 h6 b7 b8]
    C8_generation_failure_gives_apology [where svc = outage, OF h1 h2 h3 h4 h5 h6 o7 o8]
  show ?thesis by (simp add: first_chat)
qed

section \<open>Reset\<close>

text \<open>
  C9. \<open>reset\<close> is idempotent. It has no failing branch (its result is a state, never an
  exception): on a key with no chat object it changes nothing; a second \<open>reset\<close> changes
  nothing after the first, and no chat object is left under the key. After a \<open>reset\<close>,
  \<open>_get_session\<close> for the key returns a chat object with an empty history, stores it under
  the key, and (in a state whose objects were all allocated before) the object is a new one: its
  identity differs from that of every chat object the state held, the removed one included.
\<close>

theorem C9_reset_idempotent:
  "(sessions st k = None \<longrightarrow> reset st k = st) \<and>
   reset (reset st k) k = reset st k \<and>
   sessions (reset st k) k = None \<and>
   history (fst (get_session (reset st k) k)) = [] \<and>
   (wf_state st \<longrightarrow> (\<forall>k' c. sessions st k' = Some c \<longrightarrow> chat_id (fst (get_session (reset st k) k)) \<noteq> chat_id c)) \<and>
   sessions (snd (get_session (reset st k) k)) k = Some (fst (get_session (reset st k) k))"
proof -
  have fresh: "wf_state st \<longrightarrow> (\<forall>k' c. sessions st k' = Some c \<longrightarrow> chat_id (fst (get_session (reset st k) k)) \<noteq> chat_id c)"
    using wf_fresh [of st] by (fastforce simp: get_session_after_reset)
  show ?thesis
    using fresh by (simp add: reset_absent reset_twice sessions_reset get_session_after_reset)
qed

theorem C9_reset_idempotent_witness:
  "wf_state (snd (get_session (initial_state {}) (lit ''dm:3''))) \<and>
   sessions (snd (get_session (initial_state {}) (lit ''dm:3''))) (lit ''dm:3'') =
     Some \<lparr>chat_id = 0, history = []\<rparr> \<and>
   sessions (reset (snd (get_session (initial_state {}) (lit ''dm:3''))) (lit ''dm:3'')) (lit ''dm:3'') = None \<and>
   reset (reset (snd (get_session (initial_state {}) (lit ''dm:3''))) (lit ''dm:3'')) (lit ''dm:3'') =
     reset (snd (get_session (initial_state {}) (lit ''dm:3''))) (lit ''dm:3'') \<and>
   reset (initial_state {}) (lit ''dm:3'') = initial_state {} \<and>
   fst (get_session (reset (snd (get_session (initial_state {}) (lit ''dm:3''))) (lit ''dm:3'')) (lit ''dm:3'')) =
     \<lparr>chat_id = 1, history = []\<rparr> \<and>
   chat_id (fst (get_session (reset (snd (get_session (initial_state {}) (lit ''dm:3''))) (lit ''dm:3''))
     (lit ''dm:3''))) \<noteq> chat_id \<lparr>chat_id = 0, history = []\<rparr>"
proof -
  let ?k = "lit ''dm:3''"
  let ?st = "snd (get_session (initial_state {}) ?k)"
  have wf: "wf_state ?st" by (rule wf_get_session) (rule wf_initial)
  have stored: "sessions ?st ?k = Some \<lparr>chat_id = 0, history = []\<rparr>"
    by (simp add: get_session_def initial_state_def Let_def)
  have none: "sessions (initial_state {}) ?k = None" by (simp add: initial_state_def)
  have nxt: "next_chat ?st = 1"
    by (simp add: get_session_def initial_state_def Let_def)
  note T = C9_reset_idempotent [where st = ?st and k = ?k]
  note T0 = C9_reset_idempotent [where st = "initial_state {}" and k = ?k]
  from T have twice: "reset (reset ?st ?k) ?k = reset ?st ?k"
    and gone: "sessions (reset ?st ?k) ?k = None"
    and hist: "history (fst (get_session (reset ?st ?k) ?k)) = []"
    by simp_all
  from T0 none have absent: "reset (initial_state {}) ?k = initial_state {}" by simp
  have id1: "chat_id (fst (get_session (reset ?st ?k) ?k)) = 1"
    by (simp add: get_session_after_reset nxt)
  from id1 hist have handle: "fst (get_session (reset ?st ?k) ?k) = \<lparr>chat_id = 1, history = []\<rparr>"
    by (cases "fst (get_session (reset ?st ?k) ?k)") simp
  from T wf have "\<forall>k' c. sessions ?st k' = Some c \<longrightarrow>
      chat_id (fst (get_session (reset ?st ?k) ?k)) \<noteq> chat_id c"
    by simp
  with stored have fresh: "chat_id (fst (get_session (reset ?st ?k) ?k)) \<noteq>
      chat_id \<lparr>chat_id = 0, history = []\<rparr>"
    by (simp del: chat.simps)
  from wf stored gone twice absent handle fresh show ?thesis by simp
qed

section \<open>A failed generation keeps the session\<close>



section \<open>Generation calls in flight\<close>

text \<open>
  C1, as amended. The code has no lock around \<open>generate\<close>: a message that is routed to
  generation starts its call as soon as it is dispatched, whatever is in flight; it neither
  waits nor fails. So dispatching such a message \<open>n\<close> times before any call returns adds
  \<open>n\<close> calls to those in flight, all for the same session id and all on the one chat object
  that the dictionary holds for that id. Each dispatched message starts at most one call.
\<close>

theorem C1_calls_are_not_serialised:
  assumes "on_message_begin ops client_user (sys_state s) m = Awaiting st1 evs c"
  shows "in_flight (run ops client_user s (replicate n (Dispatch m))) = in_flight s @ replicate n c \<and>
         (0 < n \<longrightarrow>
            (\<exists>ch. sessions (sys_state (run ops client_user s (replicate n (Dispatch m)))) (call_session c) = Some ch \<and>
                  chat_id ch = call_chat c))"
proof -
  have main: "0 < n \<Longrightarrow>
      in_flight (run ops client_user s (replicate n (Dispatch m))) = in_flight s @ replicate n c \<and>
      sys_state (run ops client_user s (replicate n (Dispatch m))) = st1" for n
  proof (induction n)
    case 0
    then show ?case by simp
  next
    case (Suc n)
    show ?case
    proof (cases "n = 0")
      case True
      then show ?thesis using assms by (simp add: run_def)
    next
      case False
      with Suc.IH have ih: "in_flight (run ops client_user s (replicate n (Dispatch m))) = in_flight s @ replicate n c"
        "sys_state (run ops client_user s (replicate n (Dispatch m))) = st1" by simp_all
      have again: "on_message_begin ops client_user st1 m = Awaiting st1 evs c"
        using begin_awaiting(6) [OF assms] .
      have rep: "replicate (Suc n) (Dispatch m) = replicate n (Dispatch m) @ [Dispatch m]"
        by (simp add: replicate_append_same)
      have "run ops client_user s (replicate (Suc n) (Dispatch m)) =
            step ops client_user (run ops client_user s (replicate n (Dispatch m))) (Dispatch m)"
        by (simp only: rep run_snoc)
      also have "\<dots> = (run ops client_user s (replicate n (Dispatch m)))
            \<lparr>sys_state := st1,
             in_flight := in_flight (run ops client_user s (replicate n (Dispatch m))) @ [c],
             sys_events := sys_events (run ops client_user s (replicate n (Dispatch m))) @ evs\<rparr>"
        using again ih(2) by (intro step_dispatch_awaiting) simp
      finally show ?thesis
        using ih(1) by (simp add: replicate_append_same)
    qed
  qed
  have stored: "\<exists>ch. sessions st1 (call_session c) = Some ch \<and> chat_id ch = call_chat c"
    using begin_awaiting(1,2) [OF assms] by (simp add: get_session_properties)
  show ?thesis
  proof (cases "n = 0")
    case True
    then show ?thesis by (simp add: run_def)
  next
    case False
    with main [of n] stored show ?thesis by simp
  qed
qed

theorem C1_calls_are_not_serialised_witness:
  "(\<exists>st1 evs. on_message_begin ascii_ops (Some self_user) (sys_state (start {})) (dm_message stranger ''hello'') =
      Awaiting st1 evs
        \<lparr>call_session = lit ''dm:3'', call_prompt = lit ''hello'', call_chat = 0,
         call_message = dm_message stranger ''hello''\<rparr>) \<and>
   in_flight (run ascii_ops (Some self_user) (start {}) (replicate 3 (Dispatch (dm_message stranger ''hello'')))) =
     replicate 3
        \<lparr>call_session = lit ''dm:3'', call_prompt = lit ''hello'', call_chat = 0,
         call_message = dm_message stranger ''hello''\<rparr> \<and>
   (\<exists>ch. sessions (sys_state (run ascii_ops (Some self_user) (start {})
              (replicate 3 (Dispatch (dm_message stranger ''hello''))))) (lit ''dm:3'') = Some ch \<and>
         chat_id ch = 0)"
proof -
  let ?c = "\<lparr>call_session = lit ''dm:3'', call_prompt = lit ''hello'', call_chat = 0,
         call_message = dm_message stranger ''hello''\<rparr>"
  have h: "str_lower ascii_ops (ascii_strip (lit ''hello'')) \<notin> JOIN_TOKENS \<union> LEAVE_TOKENS \<union> RESET_TOKENS"
    by (simp only: sample_bodies sample_lower sample_tokens not_False_eq_True)
  have ne: "ascii_strip (lit ''hello'') \<noteq> []"
    by (simp add: sample_bodies) (simp add: lit_def)
  have st: "sys_state (start {}) = initial_state {}" and fl: "in_flight (start {}) = []"
    by (simp_all add: start_def)
  have b: "on_message_begin ascii_ops (Some self_user) (sys_state (start {})) (dm_message stranger ''hello'') =
      Awaiting (snd (get_session (initial_state {}) (lit ''dm:3''))) [Typing, SendMessage 0 (lit ''hello'')] ?c"
    using sample_dm_begin [OF h ne, where st = "initial_state {}" and cu = "Some self_user"]
    by (simp add: sample_bodies first_chat st)
  have "in_flight (run ascii_ops (Some self_user) (start {}) (replicate 3 (Dispatch (dm_message stranger ''hello'')))) =
          in_flight (start {}) @ replicate 3 ?c \<and>
        (0 < (3::nat) \<longrightarrow>
          (\<exists>ch. sessions (sys_state (run ascii_ops (Some self_user) (start {})
              (replicate 3 (Dispatch (dm_message stranger ''hello''))))) (call_session ?c) = Some ch \<and>
            chat_id ch = call_chat ?c))"
    by (rule C1_calls_are_not_serialised [OF b])
  with b fl show ?thesis by auto
qed

text \<open>
  The claim as stated fails: after two messages of one user in a direct conversation, the
  second dispatched before the first call returns, two calls for the session id \<open>dm:3\<close> are
  in flight, both on the chat object 0.
\<close>

theorem C1_counterexample:
  "\<not> single_flight (run ascii_ops (Some self_user) (start {}) two_hellos) \<and>
   map call_session (in_flight (run ascii_ops (Some self_user) (start {}) two_hellos)) =
     [lit ''dm:3'', lit ''dm:3''] \<and>
   map call_chat (in_flight (run ascii_ops (Some self_user) (start {}) two_hellos)) = [0, 0]"
proof -
  let ?k = "lit ''dm:3''"
  let ?st1 = "snd (get_session (initial_state {}) ?k)"
  have b1: "on_message_begin ascii_ops (Some self_user) (initial_state {}) (dm_message stranger ''hello'') =
     Awaiting ?st1 [Typing, SendMessage 0 (lit ''hello'')]
       \<lparr>call_session = ?k, call_prompt = lit ''hello'', call_chat = 0,
        call_message = dm_message stranger ''hello''\<rparr>"
  proof -
    have h: "str_lower ascii_ops (ascii_strip (lit ''hello'')) \<notin> JOIN_TOKENS \<union> LEAVE_TOKENS \<union> RESET_TOKENS"
      by (simp only: sample_bodies sample_lower sample_tokens not_False_eq_True)
    have ne: "ascii_strip (lit ''hello'') \<noteq> []"
      by (simp add: sample_bodies) (simp add: lit_def)
    from sample_dm_begin [OF h ne, where st = "initial_state {}" and cu = "Some self_user"]
    show ?thesis by (simp add: sample_bodies first_chat)
  qed
  have again: "chat_id (fst (get_session ?st1 ?k)) = 0"
    by (simp add: get_session_properties first_chat)
  have b2: "on_message_begin ascii_ops (Some self_user) ?st1 (dm_message stranger ''again'') =
     Awaiting (snd (get_session ?st1 ?k)) [Typing, SendMessage 0 (lit ''again'')]
       \<lparr>call_session = ?k, call_prompt = lit ''again'', call_chat = 0,
        call_message = dm_message stranger ''again''\<rparr>"
  proof -
    have h: "str_lower ascii_ops (ascii_strip (lit ''again'')) \<notin> JOIN_TOKENS \<union> LEAVE_TOKENS \<union> RESET_TOKENS"
      by (simp only: sample_bodies sample_lower sample_tokens not_False_eq_True)
    have ne: "ascii_strip (lit ''again'') \<noteq> []"
      by (simp add: sample_bodies) (simp add: lit_def)
    from sample_dm_begin [OF h ne, where st = ?st1 and cu = "Some self_user"]
    show ?thesis by (simp add: sample_bodies again)
  qed
  have "in_flight (run ascii_ops (Some self_user) (start {}) two_hellos) =
     [\<lparr>call_session = ?k, call_prompt = lit ''hello'', call_chat = 0,
        call_message = dm_message stranger ''hello''\<rparr>,
      \<lparr>call_session = ?k, call_prompt = lit ''again'', call_chat = 0,
        call_message = dm_message stranger ''again''\<rparr>]"
    by (simp add: run_def two_hellos_def start_def b1 b2)
  then show ?thesis
    by (simp add: single_flight_def)
qed

end
